theory Spec2Isabelle
  imports Complex_Main "HOL-Library.Log_Nat"
begin

section \<open>Python values and errors\<close>

text \<open>
  The service is one Python module, \<^verbatim>\<open>app.py\<close>. Exceptions are values: a function that
  can raise returns \<open>error + 'a\<close>, with \<open>Inl\<close> for the exception. \<open>HTTPException\<close>
  carries the status code and the detail string; \<open>Raised\<close> stands for any other
  subclass of \<open>Exception\<close> coming out of a library call, with its message. The message
  of a built-in exception depends on the interpreter: \<open>str_of_error\<close> puts a fixed tag in
  its place, and no property below depends on the tag.
\<close>

datatype error =
    HTTPException nat string
  | IndexError
  | KeyError
  | TypeError
  | AttributeError
  | ValueError
  | OverflowError
  | Raised string

primrec str_of_error :: "error \<Rightarrow> string" where
  "str_of_error (HTTPException c d) = d"
| "str_of_error IndexError = ''list index out of range''"
| "str_of_error KeyError = ''key''"
| "str_of_error TypeError = ''type''"
| "str_of_error AttributeError = ''attribute''"
| "str_of_error ValueError = ''value''"
| "str_of_error OverflowError = ''int too large to convert to float''"
| "str_of_error (Raised s) = s"

definition py_index :: "'a list \<Rightarrow> int \<Rightarrow> error + 'a" where
  \<comment> \<open>\<^verbatim>\<open>xs[i]\<close> on a list or tuple; \<^verbatim>\<open>xs[-k]\<close> is the \<open>k\<close>-th element from the end\<close>
  "py_index xs i =
     (if 0 \<le> i \<and> i < int (length xs) then Inr (xs ! nat i)
      else if i < 0 \<and> - int (length xs) \<le> i then Inr (xs ! nat (int (length xs) + i))
      else Inl IndexError)"

section \<open>Floats\<close>

text \<open>
  A Python float is an IEEE 754 binary64 number. A finite float is modelled by the real
  number it denotes, and every arithmetic operation rounds its exact result to the nearest
  binary64 number, ties to even (\<open>fl\<close>). Infinities and NaN are not modelled: no
  arithmetic operation of this module overflows on finite inputs, and the conversion of an
  integer too large for binary64 raises \<^verbatim>\<open>OverflowError\<close> (\<open>py_float\<close>).
\<close>

definition round_half_even :: "real \<Rightarrow> int" where
  "round_half_even x =
     (let f = \<lfloor>x\<rfloor>; r = x - of_int f
      in if r < 1 / 2 then f else if 1 / 2 < r then f + 1 else if even f then f else f + 1)"

definition binade :: "real \<Rightarrow> int" where
  \<comment> \<open>the exponent \<open>e\<close> with \<open>2 ^ e \<le> \<bar>x\<bar> < 2 ^ (e + 1)\<close>, for \<open>x \<noteq> 0\<close>\<close>
  "binade x =
     (let a = \<bar>x\<bar>
      in if 1 \<le> a then bitlen \<lfloor>a\<rfloor> - 1
         else if a = 0 then 0
         else - bitlen (\<lceil>1 / a\<rceil> - 1))"

definition ulp :: "real \<Rightarrow> real" where
  \<comment> \<open>spacing of the binary64 numbers around \<open>x\<close>: 53 significant bits, subnormals below \<open>2 ^ -1022\<close>\<close>
  "ulp x = 2 powi (max (binade x) (- 1022) - 52)"

definition fl :: "real \<Rightarrow> real" where
  "fl x = of_int (round_half_even (x / ulp x)) * ulp x"

definition is_float :: "real \<Rightarrow> bool" where
  "is_float x \<longleftrightarrow> fl x = x"

definition trunc :: "real \<Rightarrow> int" where
  \<comment> \<open>\<^verbatim>\<open>int(x)\<close> on a float: towards zero\<close>
  "trunc x = (if 0 \<le> x then \<lfloor>x\<rfloor> else \<lceil>x\<rceil>)"

definition c_fmod :: "real \<Rightarrow> real \<Rightarrow> real" where
  \<comment> \<open>C's \<^verbatim>\<open>fmod\<close>: the exact remainder, with the sign of \<open>x\<close>\<close>
  "c_fmod x y = x - y * of_int (trunc (x / y))"

definition py_float_mod :: "real \<Rightarrow> real \<Rightarrow> real" where
  \<comment> \<open>\<^verbatim>\<open>x % y\<close> on floats (CPython's \<^verbatim>\<open>float_rem\<close>), for \<open>y \<noteq> 0\<close>\<close>
  "py_float_mod vx wx =
     (let m = c_fmod vx wx
      in if m \<noteq> 0 \<and> ((wx < 0) \<noteq> (m < 0)) then fl (m + wx) else m)"

definition py_float_floordiv :: "real \<Rightarrow> real \<Rightarrow> real" where
  \<comment> \<open>\<^verbatim>\<open>x // y\<close> on floats (CPython's \<^verbatim>\<open>_float_div_mod\<close>), for \<open>y \<noteq> 0\<close>\<close>
  "py_float_floordiv vx wx =
     (let m = c_fmod vx wx;
          div0 = fl (fl (vx - m) / wx);
          dv = (if m \<noteq> 0 \<and> ((wx < 0) \<noteq> (m < 0)) then fl (div0 - 1) else div0)
      in if dv \<noteq> 0
         then (let fd = of_int \<lfloor>dv\<rfloor>
               in if fl (dv - fd) > 1 / 2 then fl (fd + 1) else fd)
         else 0)"

definition py_round :: "real \<Rightarrow> int" where
  \<comment> \<open>\<^verbatim>\<open>round(x)\<close> with one argument: the nearest integer, ties to even\<close>
  "py_round x = round_half_even x"

section \<open>Position formatter\<close>

definition SIGNS :: "string list" where
  "SIGNS = [''Aries'', ''Taurus'', ''Gemini'', ''Cancer'', ''Leo'', ''Virgo'',
            ''Libra'', ''Scorpio'', ''Sagittarius'', ''Capricorn'', ''Aquarius'', ''Pisces'']"

definition normalize_deg :: "real \<Rightarrow> real" where
  "normalize_deg deg = py_float_mod deg 360"

definition zodiac_sign_and_pos :: "real \<Rightarrow> error + (string \<times> real)" where
  "zodiac_sign_and_pos ecl_lon_deg =
     (let lon = normalize_deg ecl_lon_deg;
          sign_index = trunc (py_float_floordiv lon 30)
      in case py_index SIGNS sign_index of
           Inl e \<Rightarrow> Inl e
         | Inr sign \<Rightarrow> Inr (sign, fl (lon - fl (of_int sign_index * 30))))"

definition round_to_arcminute :: "real \<Rightarrow> int \<times> int" where
  "round_to_arcminute pos_in_sign =
     (let d = trunc pos_in_sign;
          m = py_round (fl (fl (pos_in_sign - of_int d) * 60))
      in if m = 60
         then (if d + 1 = 30 then (29, 59) else (d + 1, 0))
         else (d, m))"

section \<open>External collaborators\<close>

text \<open>
  The ephemeris engine (\<^verbatim>\<open>swisseph\<close>), the two geocoding providers, the timezone index and
  the civil-time library are not part of the module. Their calls are fields of an
  environment; a call that can raise returns \<open>string + 'a\<close>, with \<open>Inl\<close> for the
  message of the library's exception, which \<open>lib\<close> turns into the exception \<open>Raised\<close>.
\<close>

definition lib :: "string + 'a \<Rightarrow> error + 'a" where
  "lib r = (case r of Inl msg \<Rightarrow> Inl (Raised msg) | Inr v \<Rightarrow> Inr v)"

datatype body =
  SUN | MOON | MERCURY | VENUS | MARS | JUPITER | SATURN | URANUS | NEPTUNE | PLUTO
  | MEAN_NODE | ECL_NUT

datatype flag = FLG_SWIEPH | FLG_SPEED

datatype json =
  JNull | JBool bool | JNum real | JStr string | JArr "json list" | JObj "(string \<times> json) list"

datatype param = PStr string | PInt int

record http_request =
  url :: string
  params :: "(string \<times> param) list"
  timeout :: nat

record response =
  status_code :: nat
  http_error_message :: string
  json_body :: "string + json"

record location =
  latitude :: real
  longitude :: real
  raw :: json

record datetime =
  dt_year :: int
  dt_month :: int
  dt_day :: int
  dt_hour :: int
  dt_minute :: int
  dt_second :: int
  isoformat :: string

record env =
  nominatim_geocode :: "string \<Rightarrow> string + location option"
  requests_get :: "http_request \<Rightarrow> string + response"
  float_of_str :: "string \<Rightarrow> real option"
  timezone_at :: "real \<Rightarrow> real \<Rightarrow> string + string option"
  closest_timezone_at :: "real \<Rightarrow> real \<Rightarrow> string + string option"
  ZoneInfo :: "string \<Rightarrow> string + string"
  ZoneInfo_with_tzdata :: "string \<Rightarrow> string + string"
  make_datetime :: "int \<Rightarrow> int \<Rightarrow> int \<Rightarrow> int \<Rightarrow> int \<Rightarrow> string \<Rightarrow> string + datetime"
  astimezone_utc :: "datetime \<Rightarrow> string + datetime"
  julday :: "int \<Rightarrow> int \<Rightarrow> int \<Rightarrow> real \<Rightarrow> real"
  calc_ut :: "real \<Rightarrow> body \<Rightarrow> flag list \<Rightarrow> string + real list"
  houses_ex :: "real \<Rightarrow> real \<Rightarrow> real \<Rightarrow> string \<Rightarrow> string + (real list \<times> real list)"
  house_pos :: "real \<Rightarrow> real \<Rightarrow> real \<Rightarrow> real list \<Rightarrow> string \<Rightarrow> string + real"

text \<open>
  \<open>calc_ut\<close> stands for \<^verbatim>\<open>swe.calc_ut(jd, body, flags)[0]\<close>, the tuple of coordinates and
  speeds. \<open>ZoneInfo_with_tzdata\<close> is the second attempt of \<open>local_to_utc\<close>, after
  \<^verbatim>\<open>import tzdata\<close>. \<open>astimezone_utc\<close> is \<^verbatim>\<open>dt.astimezone(ZoneInfo("UTC"))\<close>.
\<close>

section \<open>Process start\<close>

record process =
  ephe_path :: "string option"
  set_ephe_path_calls :: "string list"
  stdout :: "string list"

definition process0 :: process where
  "process0 = \<lparr>ephe_path = None, set_ephe_path_calls = [], stdout = []\<rparr>"

definition set_ephe_path :: "string \<Rightarrow> process \<Rightarrow> process" where
  "set_ephe_path p s = s\<lparr>ephe_path := Some p, set_ephe_path_calls := set_ephe_path_calls s @ [p]\<rparr>"

definition print :: "string \<Rightarrow> process \<Rightarrow> process" where
  "print line s = s\<lparr>stdout := stdout s @ [line]\<rparr>"

definition path_join :: "string \<Rightarrow> string \<Rightarrow> string" where
  \<comment> \<open>\<^verbatim>\<open>os.path.join(a, b)\<close> on POSIX, for a relative \<open>b\<close>\<close>
  "path_join a b = (if a = [] \<or> last a = CHR ''/'' then a @ b else a @ ''/'' @ b)"

definition str_of_bool :: "bool \<Rightarrow> string" where
  "str_of_bool b = (if b then ''True'' else ''False'')"

definition EPHE_PATH :: "string \<Rightarrow> string" where
  \<comment> \<open>the argument is \<^verbatim>\<open>BASE_DIR\<close>, the directory of the source file\<close>
  "EPHE_PATH base_dir = path_join base_dir ''ephe''"

definition startup :: "string \<Rightarrow> (string \<Rightarrow> bool) \<Rightarrow> process" where
  \<comment> \<open>the module-level statements, in source order; \<open>path_exists\<close> is \<^verbatim>\<open>os.path.exists\<close>\<close>
  "startup base_dir path_exists =
     (let s1 = set_ephe_path (EPHE_PATH base_dir) process0;
          s2 = print (''EPHE_PATH = '' @ EPHE_PATH base_dir) s1;
          s3 = print (''EPHE exists? '' @ str_of_bool (path_exists (EPHE_PATH base_dir))) s2;
          s4 = print (''seas exists? '' @
                 str_of_bool (path_exists (path_join (EPHE_PATH base_dir) ''seas_18.se1''))) s3
      in set_ephe_path ''./ephe'' s4)"

section \<open>Locked settings\<close>

definition HOUSE_SYSTEM :: string where
  "HOUSE_SYSTEM = ''P''"

definition FLAGS :: "flag list" where
  "FLAGS = [FLG_SWIEPH, FLG_SPEED]"

definition NODE_BODY :: body where
  "NODE_BODY = MEAN_NODE"

definition PLANETS :: "(string \<times> body) list" where
  "PLANETS =
     [(''Sun'', SUN), (''Moon'', MOON), (''Mercury'', MERCURY), (''Venus'', VENUS),
      (''Mars'', MARS), (''Jupiter'', JUPITER), (''Saturn'', SATURN), (''Uranus'', URANUS),
      (''Neptune'', NEPTUNE), (''Pluto'', PLUTO), (''Node(M)'', NODE_BODY)]"

record chart_request =
  year :: int
  month :: int
  day :: int
  hour :: int
  minute :: int
  location_query :: string
  country :: "string option"

section \<open>Geocoder\<close>

primrec py_truthy :: "json \<Rightarrow> bool" where
  "py_truthy JNull = False"
| "py_truthy (JBool b) = b"
| "py_truthy (JNum r) = (r \<noteq> 0)"
| "py_truthy (JStr s) = (s \<noteq> [])"
| "py_truthy (JArr xs) = (xs \<noteq> [])"
| "py_truthy (JObj kvs) = (kvs \<noteq> [])"

primrec dict_get :: "json \<Rightarrow> string \<Rightarrow> error + json" where
  \<comment> \<open>\<^verbatim>\<open>data.get(k)\<close>: only a dict has the method; a missing key gives \<^verbatim>\<open>None\<close>\<close>
  "dict_get (JObj kvs) k = Inr (case map_of kvs k of None \<Rightarrow> JNull | Some v \<Rightarrow> v)"
| "dict_get JNull k = Inl AttributeError"
| "dict_get (JBool b) k = Inl AttributeError"
| "dict_get (JNum r) k = Inl AttributeError"
| "dict_get (JStr s) k = Inl AttributeError"
| "dict_get (JArr xs) k = Inl AttributeError"

primrec first_item :: "json \<Rightarrow> error + json" where
  \<comment> \<open>\<^verbatim>\<open>results[0]\<close>\<close>
  "first_item (JArr xs) = py_index xs 0"
| "first_item (JStr s) = map_sum id (\<lambda>c. JStr [c]) (py_index s 0)"
| "first_item (JObj kvs) = Inl KeyError"
| "first_item JNull = Inl TypeError"
| "first_item (JBool b) = Inl TypeError"
| "first_item (JNum r) = Inl TypeError"

primrec subscript_str :: "json \<Rightarrow> string \<Rightarrow> error + json" where
  \<comment> \<open>\<^verbatim>\<open>best[k]\<close> with a string key\<close>
  "subscript_str (JObj kvs) k = (case map_of kvs k of None \<Rightarrow> Inl KeyError | Some v \<Rightarrow> Inr v)"
| "subscript_str JNull k = Inl TypeError"
| "subscript_str (JBool b) k = Inl TypeError"
| "subscript_str (JNum r) k = Inl TypeError"
| "subscript_str (JStr s) k = Inl TypeError"
| "subscript_str (JArr xs) k = Inl TypeError"

primrec py_float :: "(string \<Rightarrow> real option) \<Rightarrow> json \<Rightarrow> error + real" where
  \<comment> \<open>\<^verbatim>\<open>float(v)\<close>; a number rounds to binary64, and one that rounds beyond the largest
      binary64 number can only be an integer, whose conversion raises\<close>
  "py_float parse (JNum r) = (if \<bar>fl r\<bar> < 2 ^ 1024 then Inr (fl r) else Inl OverflowError)"
| "py_float parse (JBool b) = Inr (if b then 1 else 0)"
| "py_float parse (JStr s) = (case parse s of None \<Rightarrow> Inl ValueError | Some r \<Rightarrow> Inr r)"
| "py_float parse JNull = Inl TypeError"
| "py_float parse (JArr xs) = Inl TypeError"
| "py_float parse (JObj kvs) = Inl TypeError"

definition raise_for_status :: "response \<Rightarrow> error + unit" where
  \<comment> \<open>\<^verbatim>\<open>r.raise_for_status()\<close>: \<^verbatim>\<open>requests.HTTPError\<close> with the message the library builds from
      the status, the reason and the URL of the response (\<open>http_error_message\<close>)\<close>
  "raise_for_status r =
     (if 400 \<le> status_code r \<and> status_code r < 600
      then Inl (Raised (http_error_message r)) else Inr ())"

definition open_meteo_request :: "string \<Rightarrow> http_request" where
  "open_meteo_request query =
     \<lparr>url = ''https://geocoding-api.open-meteo.com/v1/search'',
      params = [(''name'', PStr query), (''count'', PInt 1),
                (''language'', PStr ''en''), (''format'', PStr ''json'')],
      timeout = 10\<rparr>"

definition open_meteo_lookup :: "env \<Rightarrow> string \<Rightarrow> error + (real \<times> real \<times> json)" where
  \<comment> \<open>the body of the second \<^verbatim>\<open>try\<close> block\<close>
  "open_meteo_lookup E query =
     (case lib (requests_get E (open_meteo_request query)) of Inl e \<Rightarrow> Inl e | Inr r \<Rightarrow>
      (case raise_for_status r of Inl e \<Rightarrow> Inl e | Inr _ \<Rightarrow>
       (case lib (json_body r) of Inl e \<Rightarrow> Inl e | Inr data \<Rightarrow>
        (case dict_get data ''results'' of Inl e \<Rightarrow> Inl e | Inr got \<Rightarrow>
         (let results = (if py_truthy got then got else JArr [])
          in if \<not> py_truthy results
             then Inl (HTTPException 404 ''Location not found. Try 'City, State, Country'.'')
             else
               (case first_item results of Inl e \<Rightarrow> Inl e | Inr best \<Rightarrow>
                (case subscript_str best ''latitude'' of Inl e \<Rightarrow> Inl e | Inr la \<Rightarrow>
                 (case py_float (float_of_str E) la of Inl e \<Rightarrow> Inl e | Inr lat \<Rightarrow>
                  (case subscript_str best ''longitude'' of Inl e \<Rightarrow> Inl e | Inr lo \<Rightarrow>
                   (case py_float (float_of_str E) lo of Inl e \<Rightarrow> Inl e | Inr lon \<Rightarrow>
                      Inr (lat, lon,
                           JObj [(''source'', JStr ''open-meteo''), (''raw'', best)])))))))))))"

definition geocode_location :: "env \<Rightarrow> string \<Rightarrow> error + (real \<times> real \<times> json)" where
  "geocode_location E query =
     (case (case nominatim_geocode E query of
              Inl msg \<Rightarrow> None
            | Inr None \<Rightarrow> None
            | Inr (Some loc) \<Rightarrow> Some (latitude loc, longitude loc, raw loc)) of
        Some res \<Rightarrow> Inr res
      | None \<Rightarrow>
          (case open_meteo_lookup E query of
             Inr res \<Rightarrow> Inr res
           | Inl (HTTPException c d) \<Rightarrow> Inl (HTTPException c d)
           | Inl e \<Rightarrow> Inl (HTTPException 502 (''Geocoding error: '' @ str_of_error e))))"

section \<open>Timezone resolver\<close>

definition not_str :: "string option \<Rightarrow> bool" where
  \<comment> \<open>\<^verbatim>\<open>not tz_name\<close>: \<^verbatim>\<open>None\<close> and the empty string are falsy\<close>
  "not_str s = (case s of None \<Rightarrow> True | Some t \<Rightarrow> t = [])"

definition resolve_timezone_name :: "env \<Rightarrow> real \<Rightarrow> real \<Rightarrow> error + string" where
  "resolve_timezone_name E lat lon =
     (case lib (timezone_at E lat lon) of Inl e \<Rightarrow> Inl e | Inr tz1 \<Rightarrow>
      (case (if not_str tz1 then lib (closest_timezone_at E lat lon) else Inr tz1) of
         Inl e \<Rightarrow> Inl e
       | Inr tz2 \<Rightarrow>
           (case tz2 of
              None \<Rightarrow> Inl (HTTPException 422 ''Could not resolve timezone for this location.'')
            | Some name \<Rightarrow>
                if name = []
                then Inl (HTTPException 422 ''Could not resolve timezone for this location.'')
                else Inr name)))"

section \<open>Time normalizer\<close>

definition local_to_utc ::
  "env \<Rightarrow> int \<Rightarrow> int \<Rightarrow> int \<Rightarrow> int \<Rightarrow> int \<Rightarrow> string \<Rightarrow> error + (datetime \<times> datetime)" where
  "local_to_utc E y mo d h mi tz_name =
     (case (case ZoneInfo E tz_name of
              Inl msg \<Rightarrow> lib (ZoneInfo_with_tzdata E tz_name)
            | Inr tz \<Rightarrow> Inr tz) of
        Inl e \<Rightarrow> Inl e
      | Inr tz \<Rightarrow>
          (case lib (make_datetime E y mo d h mi tz) of
             Inl e \<Rightarrow> Inl e
           | Inr local_dt \<Rightarrow>
               (case lib (astimezone_utc E local_dt) of
                  Inl e \<Rightarrow> Inl e
                | Inr utc_dt \<Rightarrow> Inr (local_dt, utc_dt))))"

definition julian_day_ut :: "env \<Rightarrow> datetime \<Rightarrow> real" where
  "julian_day_ut E utc_dt =
     (let ut_hours =
            fl (fl (of_int (dt_hour utc_dt) + fl (of_int (dt_minute utc_dt) / 60))
                + fl (of_int (dt_second utc_dt) / 3600))
      in julday E (dt_year utc_dt) (dt_month utc_dt) (dt_day utc_dt) ut_hours)"

section \<open>House of a longitude\<close>

definition obliquity :: "env \<Rightarrow> real \<Rightarrow> real list \<Rightarrow> error + real" where
  \<comment> \<open>the value of \<^verbatim>\<open>obliq\<close>: \<^verbatim>\<open>ascmc[9]\<close> when there is one, else the ephemeris's obliquity\<close>
  "obliquity E jd_ut ascmc =
     (if length ascmc > 9 then py_index ascmc 9
      else (case lib (calc_ut E jd_ut ECL_NUT FLAGS) of
              Inl e \<Rightarrow> Inl e
            | Inr xx \<Rightarrow> py_index xx 0))"

definition house_for_longitude ::
  "env \<Rightarrow> real \<Rightarrow> real \<Rightarrow> real \<Rightarrow> real \<Rightarrow> real list \<Rightarrow> real list \<Rightarrow> error + int" where
  "house_for_longitude E jd_ut lat lon ecl_lon houses ascmc =
     (case obliquity E jd_ut ascmc of
        Inl e \<Rightarrow> Inl e
      | Inr obliq \<Rightarrow>
          (case py_index ascmc 2 of
             Inl e \<Rightarrow> Inl e
           | Inr armc \<Rightarrow>
               (case lib (house_pos E armc lat obliq [ecl_lon, 0] HOUSE_SYSTEM) of
                  Inl e \<Rightarrow> Inl e
                | Inr hpos \<Rightarrow>
                    (let h = \<lfloor>hpos\<rfloor>;
                         h = (if h < 1 then 1 else h);
                         h = (if h > 12 then 12 else h)
                     in Inr h))))"

section \<open>Chart assembler\<close>

record planet_position =
  p_sign :: string
  p_deg :: int
  p_min :: int
  p_lon_deg :: real
  retrograde :: bool
  house :: int

record house_cusp =
  c_house :: int
  c_sign :: string
  c_deg :: int
  c_min :: int
  c_lon_deg :: real

record angle =
  a_sign :: string
  a_deg :: int
  a_min :: int
  a_lon_deg :: real

record geocoded =
  g_lat :: real
  g_lon :: real
  g_raw :: json

record input_echo =
  in_location_query :: string
  in_geocoded :: geocoded
  in_timezone :: string
  in_local_datetime :: string
  in_utc_datetime :: string
  in_julian_day_ut :: real

record chart_result =
  settings_locked :: "(string \<times> string) list"
  input :: input_echo
  ASC :: angle
  MC :: angle
  house_cusps :: "house_cusp list"
  planets :: "(string \<times> planet_position) list"

definition dict_set :: "'k \<Rightarrow> 'v \<Rightarrow> ('k \<times> 'v) list \<Rightarrow> ('k \<times> 'v) list" where
  \<comment> \<open>\<^verbatim>\<open>d[k] = v\<close> on an insertion-ordered dict\<close>
  "dict_set k v d =
     (if k \<in> fst ` set d then map (\<lambda>(k', v'). if k' = k then (k, v) else (k', v')) d
      else d @ [(k, v)])"

definition planet_entry ::
  "env \<Rightarrow> real \<Rightarrow> real \<Rightarrow> real \<Rightarrow> real list \<Rightarrow> real list \<Rightarrow> body \<Rightarrow> error + planet_position" where
  \<comment> \<open>the body of the loop over \<^verbatim>\<open>PLANETS.items()\<close>\<close>
  "planet_entry E jd_ut lat lon houses ascmc b =
     (case lib (calc_ut E jd_ut b FLAGS) of Inl e \<Rightarrow> Inl e | Inr res \<Rightarrow>
      (case py_index res 0 of Inl e \<Rightarrow> Inl e | Inr res0 \<Rightarrow>
       (let ecl_lon = normalize_deg res0
        in (case py_index res 3 of Inl e \<Rightarrow> Inl e | Inr speed_lon \<Rightarrow>
            (let retro = (speed_lon < 0)
             in (case zodiac_sign_and_pos ecl_lon of Inl e \<Rightarrow> Inl e | Inr (sign, pos_in_sign) \<Rightarrow>
                 (let (d, m) = round_to_arcminute pos_in_sign
                  in (case house_for_longitude E jd_ut lat lon ecl_lon houses ascmc of
                        Inl e \<Rightarrow> Inl e
                      | Inr house_num \<Rightarrow>
                          Inr \<lparr>p_sign = sign, p_deg = d, p_min = m, p_lon_deg = ecl_lon,
                               retrograde = retro, house = house_num\<rparr>))))))))"

fun planets_loop ::
  "env \<Rightarrow> real \<Rightarrow> real \<Rightarrow> real \<Rightarrow> real list \<Rightarrow> real list \<Rightarrow> (string \<times> body) list \<Rightarrow>
   (string \<times> planet_position) list \<Rightarrow> error + (string \<times> planet_position) list" where
  "planets_loop E jd_ut lat lon houses ascmc [] planets_out = Inr planets_out"
| "planets_loop E jd_ut lat lon houses ascmc ((name, b) # rest) planets_out =
     (case planet_entry E jd_ut lat lon houses ascmc b of
        Inl e \<Rightarrow> Inl e
      | Inr p \<Rightarrow> planets_loop E jd_ut lat lon houses ascmc rest (dict_set name p planets_out))"

definition format_angle :: "real \<Rightarrow> error + angle" where
  \<comment> \<open>step 7 and the entry of \<^verbatim>\<open>"angles"\<close> in the result, for one angle\<close>
  "format_angle a =
     (case zodiac_sign_and_pos a of Inl e \<Rightarrow> Inl e | Inr (sign, pos) \<Rightarrow>
      (let (d, m) = round_to_arcminute pos
       in Inr \<lparr>a_sign = sign, a_deg = d, a_min = m, a_lon_deg = normalize_deg a\<rparr>))"

fun cusps_loop :: "int \<Rightarrow> real list \<Rightarrow> house_cusp list \<Rightarrow> error + house_cusp list" where
  \<comment> \<open>\<^verbatim>\<open>for i, cusp_lon in enumerate(cusp_list, start=i)\<close>\<close>
  "cusps_loop i [] cusps_out = Inr cusps_out"
| "cusps_loop i (cusp_lon0 # rest) cusps_out =
     (let cusp_lon = normalize_deg cusp_lon0
      in (case zodiac_sign_and_pos cusp_lon of Inl e \<Rightarrow> Inl e | Inr (hs, hp) \<Rightarrow>
          (let (hd, hm) = round_to_arcminute hp
           in cusps_loop (i + 1) rest
                (cusps_out @ [\<lparr>c_house = i, c_sign = hs, c_deg = hd, c_min = hm,
                               c_lon_deg = cusp_lon\<rparr>]))))"

definition chart :: "env \<Rightarrow> chart_request \<Rightarrow> error + chart_result" where
  "chart E req =
     (case geocode_location E (location_query req) of Inl e \<Rightarrow> Inl e | Inr (lat, lon, raw_meta) \<Rightarrow>
      (case resolve_timezone_name E lat lon of Inl e \<Rightarrow> Inl e | Inr tz_name \<Rightarrow>
       (case local_to_utc E (year req) (month req) (day req) (hour req) (minute req) tz_name of
          Inl e \<Rightarrow> Inl e | Inr (local_dt, utc_dt) \<Rightarrow>
        (let jd_ut = julian_day_ut E utc_dt
         in (case lib (houses_ex E jd_ut lat lon HOUSE_SYSTEM) of Inl e \<Rightarrow> Inl e | Inr (houses, ascmc) \<Rightarrow>
             (case py_index ascmc 0 of Inl e \<Rightarrow> Inl e | Inr asc \<Rightarrow>
              (case py_index ascmc 1 of Inl e \<Rightarrow> Inl e | Inr mc \<Rightarrow>
               (case planets_loop E jd_ut lat lon houses ascmc PLANETS [] of
                  Inl e \<Rightarrow> Inl e | Inr planets_out \<Rightarrow>
                (case format_angle asc of Inl e \<Rightarrow> Inl e | Inr asc_out \<Rightarrow>
                 (case format_angle mc of Inl e \<Rightarrow> Inl e | Inr mc_out \<Rightarrow>
                  (let cusp_list = (if length houses = 12 then houses else drop 1 houses)
                   in (case cusps_loop 1 cusp_list [] of Inl e \<Rightarrow> Inl e | Inr cusps_out \<Rightarrow>
                       Inr \<lparr>settings_locked =
                              [(''zodiac'', ''tropical''), (''houses'', ''placidus''),
                               (''node'', ''mean''), (''ephemeris'', ''swiss_ephemeris'')],
                            input =
                              \<lparr>in_location_query = location_query req,
                               in_geocoded = \<lparr>g_lat = lat, g_lon = lon, g_raw = raw_meta\<rparr>,
                               in_timezone = tz_name,
                               in_local_datetime = isoformat local_dt,
                               in_utc_datetime = isoformat utc_dt,
                               in_julian_day_ut = jd_ut\<rparr>,
                            ASC = asc_out, MC = mc_out,
                            house_cusps = cusps_out,
                            planets = planets_out\<rparr>))))))))))))"

section \<open>A stub environment\<close>

text \<open>
  Deterministic stand-ins for the collaborators, on which the pipeline can be run: the
  primary geocoder finds every place at latitude 51.5, the fallback provider is unreachable,
  every place is in Europe/London, and Mercury is the one body that moves backwards.
\<close>

definition stub_env :: env where
  "stub_env =
     \<lparr>nominatim_geocode = (\<lambda>q. Inr (Some \<lparr>latitude = 103 / 2, longitude = 0, raw = JNull\<rparr>)),
      requests_get = (\<lambda>r. Inl ''connection refused''),
      float_of_str = (\<lambda>s. None),
      timezone_at = (\<lambda>lat lon. Inr (Some ''Europe/London'')),
      closest_timezone_at = (\<lambda>lat lon. Inr None),
      ZoneInfo = (\<lambda>name. Inr name),
      ZoneInfo_with_tzdata = (\<lambda>name. Inr name),
      make_datetime = (\<lambda>y mo d h mi tz.
         Inr \<lparr>dt_year = y, dt_month = mo, dt_day = d, dt_hour = h, dt_minute = mi,
              dt_second = 0, isoformat = ''local''\<rparr>),
      astimezone_utc = (\<lambda>dt. Inr (dt\<lparr>dt_hour := dt_hour dt - 1, isoformat := ''utc''\<rparr>)),
      julday = (\<lambda>y m d h. 4896115 / 2 + h / 24),
      calc_ut = (\<lambda>jd b flags.
         case b of
           MERCURY \<Rightarrow> Inr [201 / 2, 0, 1, - 1 / 2, 0, 0]
         | ECL_NUT \<Rightarrow> Inr [375 / 16, 375 / 16, 0, 0, 0, 0]
         | _ \<Rightarrow> Inr [801 / 4, 0, 1, 1, 0, 0]),
      houses_ex = (\<lambda>jd lat lon hsys.
         Inr ([15, 45, 75, 105, 135, 165, 195, 225, 255, 285, 315, 345],
              [15, 285, 567 / 2, 0, 0, 0, 0, 0])),
      house_pos = (\<lambda>armc lat eps xs hsys. Inr (583 / 100))\<rparr>"

definition stub_request :: chart_request where
  "stub_request =
     \<lparr>year = 1990, month = 6, day = 15, hour = 12, minute = 0,
      location_query = ''Greenwich, UK'', country = None\<rparr>"

section \<open>Float rounding\<close>

subsection \<open>Rounding to an integer\<close>

lemma round_half_even_of_int [simp]: "round_half_even (of_int n) = n"
  by (simp add: round_half_even_def)

lemma round_half_even_bounds:
  "of_int (round_half_even x) \<le> x + 1 / 2" "x - 1 / 2 \<le> of_int (round_half_even x)"
  unfolding round_half_even_def Let_def by (auto; linarith)+

lemma round_half_even_lower: "of_int \<lfloor>x\<rfloor> \<le> (of_int (round_half_even x) :: real)"
  unfolding round_half_even_def Let_def by auto

lemma round_half_even_ge: "of_int n \<le> x \<Longrightarrow> n \<le> round_half_even x"
proof -
  assume "of_int n \<le> x"
  then have "n \<le> \<lfloor>x\<rfloor>" by (simp add: le_floor_iff)
  also have "\<dots> \<le> round_half_even x"
    unfolding round_half_even_def Let_def by auto
  finally show ?thesis .
qed

lemma round_half_even_le: "x \<le> of_int n \<Longrightarrow> round_half_even x \<le> n"
proof -
  assume le: "x \<le> of_int n"
  show ?thesis
  proof (cases "x = of_int n")
    case True
    then show ?thesis by simp
  next
    case False
    with le have "x < of_int n" by simp
    then have "\<lfloor>x\<rfloor> < n" by (simp add: floor_less_iff)
    then have "\<lfloor>x\<rfloor> + 1 \<le> n" by simp
    moreover have "round_half_even x \<le> \<lfloor>x\<rfloor> + 1"
      unfolding round_half_even_def Let_def by auto
    ultimately show ?thesis by linarith
  qed
qed

lemma round_half_even_eqI: "\<bar>x - of_int n\<bar> < 1 / 2 \<Longrightarrow> round_half_even x = n"
proof -
  assume a: "\<bar>x - of_int n\<bar> < 1 / 2"
  from round_half_even_bounds [of x] a
  have "\<bar>(of_int (round_half_even x) :: real) - of_int n\<bar> < 1" by linarith
  then have "\<bar>round_half_even x - n\<bar> < 1"
    by (metis of_int_diff of_int_abs of_int_less_iff of_int_1)
  then show ?thesis by simp
qed

subsection \<open>Binades\<close>

lemma two_powi_pos [simp]: "0 < (2::real) powi e"
  by (simp add: zero_less_power_int)

lemma two_powi_mono: "a \<le> b \<Longrightarrow> (2::real) powi a \<le> 2 powi b"
  by (rule power_int_increasing) simp_all

lemma two_powi_less_cancel: "(2::real) powi a < 2 powi b \<Longrightarrow> a < b"
  using two_powi_mono [of b a] by (cases "a < b") simp_all

lemma two_powi_le_cancel: "(2::real) powi a \<le> 2 powi b \<Longrightarrow> a \<le> b"
proof (rule ccontr)
  assume le: "(2::real) powi a \<le> 2 powi b" and "\<not> a \<le> b"
  then have "b < a" by simp
  then have "(2::real) powi b < 2 powi a" by (rule power_int_strict_increasing) simp
  with le show False by simp
qed

lemma binade_bounds:
  assumes "x \<noteq> 0"
  shows "2 powi (binade x) \<le> \<bar>x\<bar>" "\<bar>x\<bar> < 2 powi (binade x + 1)"
proof -
  let ?a = "\<bar>x\<bar>"
  from assms have pos: "0 < ?a" by simp
  have "2 powi (binade x) \<le> ?a \<and> ?a < 2 powi (binade x + 1)"
  proof (cases "1 \<le> ?a")
    case True
    then have f: "0 < \<lfloor>?a\<rfloor>" by simp
    from bitlen_bounds [OF f] have lo: "2 ^ nat (bitlen \<lfloor>?a\<rfloor> - 1) \<le> \<lfloor>?a\<rfloor>"
      and hi: "\<lfloor>?a\<rfloor> < 2 ^ nat (bitlen \<lfloor>?a\<rfloor>)" by simp_all
    from f have b1: "1 \<le> bitlen \<lfloor>?a\<rfloor>" by (simp add: bitlen_alt_def)
    from True have b: "binade x = bitlen \<lfloor>?a\<rfloor> - 1" by (simp add: binade_def Let_def)
    from lo have "(2::real) ^ nat (bitlen \<lfloor>?a\<rfloor> - 1) \<le> of_int \<lfloor>?a\<rfloor>"
      by (metis of_int_le_iff of_int_numeral of_int_power)
    also have "\<dots> \<le> ?a" by simp
    finally have 1: "2 powi (binade x) \<le> ?a"
      using b1 by (simp add: b power_int_nonneg_exp)
    from hi have "\<lfloor>?a\<rfloor> + 1 \<le> 2 ^ nat (bitlen \<lfloor>?a\<rfloor>)" by simp
    then have "(of_int (\<lfloor>?a\<rfloor> + 1) :: real) \<le> 2 ^ nat (bitlen \<lfloor>?a\<rfloor>)"
      by (metis of_int_le_iff of_int_numeral of_int_power)
    moreover have "?a < of_int (\<lfloor>?a\<rfloor> + 1)" by linarith
    ultimately have "?a < 2 ^ nat (bitlen \<lfloor>?a\<rfloor>)" by linarith
    then have 2: "?a < 2 powi (binade x + 1)"
      using b1 by (simp add: b power_int_nonneg_exp)
    from 1 2 show ?thesis by simp
  next
    case False
    let ?c = "\<lceil>1 / ?a\<rceil> - 1"
    from False pos have inv: "1 < 1 / ?a" by simp
    then have c: "0 < ?c" by (simp add: less_ceiling_iff)
    from False pos have b: "binade x = - bitlen ?c" by (simp add: binade_def Let_def)
    from c have b1: "1 \<le> bitlen ?c" by (simp add: bitlen_alt_def)
    from bitlen_bounds [OF c] have lo: "2 ^ nat (bitlen ?c - 1) \<le> ?c"
      and hi: "?c < 2 ^ nat (bitlen ?c)" by simp_all
    from hi have "\<lceil>1 / ?a\<rceil> \<le> 2 ^ nat (bitlen ?c)" by simp
    then have "(of_int \<lceil>1 / ?a\<rceil> :: real) \<le> 2 ^ nat (bitlen ?c)"
      by (metis of_int_le_iff of_int_numeral of_int_power)
    moreover have "1 / ?a \<le> of_int \<lceil>1 / ?a\<rceil>" by (rule le_of_int_ceiling)
    ultimately have "1 / ?a \<le> 2 ^ nat (bitlen ?c)" by linarith
    with pos have "1 \<le> 2 ^ nat (bitlen ?c) * ?a" by (simp add: field_simps)
    then have "1 / 2 ^ nat (bitlen ?c) \<le> ?a" by (simp add: field_simps)
    then have 1: "2 powi (binade x) \<le> ?a"
      using b1 by (simp add: b power_int_minus_divide power_int_nonneg_exp)
    from lo have "(2::real) ^ nat (bitlen ?c - 1) \<le> of_int ?c"
      by (metis of_int_le_iff of_int_numeral of_int_power)
    moreover have "of_int ?c < 1 / ?a" by (simp add: less_ceiling_iff [symmetric]) linarith
    ultimately have "2 ^ nat (bitlen ?c - 1) < 1 / ?a" by linarith
    with pos have "2 ^ nat (bitlen ?c - 1) * ?a < 1" by (simp add: field_simps)
    then have "?a < 1 / 2 ^ nat (bitlen ?c - 1)" by (simp add: field_simps)
    moreover have "(2::real) powi (binade x + 1) = 1 / 2 ^ nat (bitlen ?c - 1)"
    proof -
      have "binade x + 1 = - (bitlen ?c - 1)" by (simp add: b)
      then have "(2::real) powi (binade x + 1) = 1 / 2 powi (bitlen ?c - 1)"
        by (simp only: power_int_minus_divide)
      with b1 show ?thesis by (simp add: power_int_nonneg_exp)
    qed
    ultimately have 2: "?a < 2 powi (binade x + 1)" by simp
    from 1 2 show ?thesis by simp
  qed
  then show "2 powi (binade x) \<le> \<bar>x\<bar>" "\<bar>x\<bar> < 2 powi (binade x + 1)" by simp_all
qed

lemma binade_eqI:
  assumes "2 powi e \<le> \<bar>x\<bar>" "\<bar>x\<bar> < 2 powi (e + 1)"
  shows "binade x = e"
proof -
  from assms(1) have "0 < \<bar>x\<bar>" using two_powi_pos [of e] by linarith
  then have nz: "x \<noteq> 0" by simp
  from binade_bounds [OF nz] assms
  have "(2::real) powi e < 2 powi (binade x + 1)" "(2::real) powi (binade x) < 2 powi (e + 1)"
    by linarith+
  then have "e < binade x + 1" "binade x < e + 1" by (auto dest: two_powi_less_cancel)
  then show ?thesis by simp
qed

lemma binade_mono:
  assumes "0 < x" "x \<le> y"
  shows "binade x \<le> binade y"
proof -
  from assms have nz: "x \<noteq> 0" "y \<noteq> 0" by simp_all
  from binade_bounds(1) [OF nz(1)] binade_bounds(2) [OF nz(2)] assms
  have "(2::real) powi (binade x) < 2 powi (binade y + 1)" by simp
  then have "binade x < binade y + 1" by (rule two_powi_less_cancel)
  then show ?thesis by simp
qed

subsection \<open>Rounding to binary64\<close>

lemma ulp_pos [simp]: "0 < ulp x"
  by (simp add: ulp_def)

lemma ulp_nonneg [simp]: "0 \<le> ulp x"
  using ulp_pos [of x] by linarith

lemma ulp_nonzero [simp]: "ulp x \<noteq> 0"
  using ulp_pos [of x] by linarith

lemma fl_zero [simp]: "fl 0 = 0"
  by (simp add: fl_def round_half_even_def)

lemma fl_nonneg: "0 \<le> x \<Longrightarrow> 0 \<le> fl x"
proof -
  assume "0 \<le> x"
  then have "of_int 0 \<le> x / ulp x" by simp
  then have "0 \<le> round_half_even (x / ulp x)" by (rule round_half_even_ge)
  then show ?thesis by (simp add: fl_def)
qed

lemma fl_of_int_mult_ulp: "x / ulp x = of_int m \<Longrightarrow> fl x = x"
proof -
  assume a: "x / ulp x = of_int m"
  then have "fl x = of_int m * ulp x" by (simp add: fl_def)
  also have "\<dots> = x" using a [symmetric] by simp
  finally show ?thesis .
qed

lemma two_powi_int:
  assumes "0 \<le> k"
  shows "(2::real) powi k = of_int (2 ^ nat k)"
  using assms by (simp add: power_int_nonneg_exp)

lemma two_powi_diff: "(2::real) powi a / 2 powi b = 2 powi (a - b)"
  by (simp add: power_int_diff)

lemma fl_exact:
  assumes x: "x = of_int n * 2 powi e" and n: "0 \<le> n" "n \<le> 2 ^ 53" and e: "- 1074 \<le> e"
  shows "fl x = x"
proof (cases "x = 0")
  case True
  then show ?thesis by simp
next
  case False
  define E where "E = max (binade x) (- 1022)"
  have u: "ulp x = 2 powi (E - 52)" by (simp add: ulp_def E_def)
  have "x / ulp x = x / 2 powi (E - 52)" by (simp only: u)
  also have "\<dots> = of_int n * (2 powi e / 2 powi (E - 52))"
    by (simp only: x times_divide_eq_right)
  finally have q: "x / ulp x = of_int n * 2 powi (e - (E - 52))"
    by (simp only: two_powi_diff)
  show ?thesis
  proof (cases "0 \<le> e - (E - 52)")
    case True
    then have "x / ulp x = of_int (n * 2 ^ nat (e - (E - 52)))"
      by (simp add: q two_powi_int)
    then show ?thesis by (rule fl_of_int_mult_ulp)
  next
    case low: False
    with e have "- 1022 < E" by simp
    then have E: "E = binade x" by (simp add: E_def max_def split: if_splits)
    from False n x have xpos: "0 < x" "\<bar>x\<bar> = x"
      by (simp_all add: zero_le_mult_iff less_le)
    from binade_bounds(1) [OF False] have "2 powi E \<le> x" by (simp add: E xpos)
    also have "x \<le> of_int (2 ^ 53) * 2 powi e"
      unfolding x using n(2) by (intro mult_right_mono) (simp_all add: of_int_le_iff [symmetric] del: of_int_le_iff)
    also have "\<dots> = 2 powi (e + 53)"
      by (simp add: power_int_add)
    finally have "E \<le> e + 53" by (rule two_powi_le_cancel)
    with low have Ee: "E = e + 53" by simp
    have "(2::real) powi (e + 53) \<le> of_int n * 2 powi e"
      using \<open>2 powi E \<le> x\<close> by (simp add: Ee x)
    then have "(2::real) ^ 53 * 2 powi e \<le> of_int n * 2 powi e"
      by (simp add: power_int_add)
    then have "(2::real) ^ 53 \<le> of_int n"
      by (simp only: mult_le_cancel_right_pos [OF two_powi_pos])
    then have "2 ^ 53 \<le> n"
      by (metis of_int_le_iff of_int_numeral of_int_power)
    with n have n53: "n = 2 ^ 53" by simp
    have "x / ulp x = of_int n * 2 powi (- 1)" by (simp add: q Ee)
    also have "\<dots> = of_int (2 ^ 52)" by (simp add: n53 power_int_minus_divide)
    finally show ?thesis by (rule fl_of_int_mult_ulp)
  qed
qed

lemma ulp_eq: "ulp x = 2 powi (max (binade x) (- 1022) - 52)"
  by (simp add: ulp_def)

lemma two_powi_53_ulp: "2 ^ 53 * ulp x = 2 powi (max (binade x) (- 1022) + 1)"
proof -
  have "(2::real) ^ 53 = 2 powi 53" by simp
  then have "2 ^ 53 * ulp x = 2 powi 53 * 2 powi (max (binade x) (- 1022) - 52)"
    by (simp only: ulp_eq)
  also have "\<dots> = 2 powi (53 + (max (binade x) (- 1022) - 52))"
    by (subst power_int_add) simp_all
  finally show ?thesis by (simp add: add.commute)
qed


lemma below_next_binade:
  assumes "0 \<le> x"
  shows "x < 2 ^ 53 * ulp x"
proof (cases "x = 0")
  case True
  then show ?thesis by simp
next
  case False
  with assms binade_bounds(2) [OF False] have "x < 2 powi (binade x + 1)" by simp
  also have "\<dots> \<le> 2 powi (max (binade x) (- 1022) + 1)" by (rule two_powi_mono) simp
  finally show ?thesis by (simp only: two_powi_53_ulp)
qed

lemma significand_le:
  assumes "0 \<le> x"
  shows "round_half_even (x / ulp x) \<le> 2 ^ 53"
proof -
  from below_next_binade [OF assms] have "x / ulp x \<le> 2 ^ 53"
    by (simp add: pos_divide_le_eq)
  then have "x / ulp x \<le> of_int (2 ^ 53)" by simp
  then show ?thesis by (rule round_half_even_le)
qed

lemma float_significand:
  assumes "fl g = g"
  shows "g / ulp g = of_int (round_half_even (g / ulp g))"
proof -
  from assms have "g = of_int (round_half_even (g / ulp g)) * ulp g" by (simp add: fl_def)
  then have "g / ulp g = of_int (round_half_even (g / ulp g)) * ulp g / ulp g" by simp
  then show ?thesis by simp
qed

lemma fl_le:
  assumes "0 \<le> x" "x \<le> g" "fl g = g"
  shows "fl x \<le> g"
proof (cases "x = 0")
  case True
  with assms show ?thesis by simp
next
  case False
  with assms have pos: "0 < x" "0 < g" by simp_all
  define Ex where "Ex = max (binade x) (- 1022)"
  define Eg where "Eg = max (binade g) (- 1022)"
  from binade_mono [OF pos(1) assms(2)] have le: "Ex \<le> Eg" by (simp add: Ex_def Eg_def)
  show ?thesis
  proof (cases "Ex = Eg")
    case True
    then have u: "ulp x = ulp g" by (simp add: ulp_eq Ex_def Eg_def)
    from assms(2) have "x / ulp g \<le> g / ulp g" by (simp add: divide_right_mono)
    also have "\<dots> = of_int (round_half_even (g / ulp g))" by (rule float_significand [OF assms(3)])
    finally have "round_half_even (x / ulp g) \<le> round_half_even (g / ulp g)"
      by (rule round_half_even_le)
    then have "(of_int (round_half_even (x / ulp g)) :: real) * ulp g
        \<le> of_int (round_half_even (g / ulp g)) * ulp g"
      by (intro mult_right_mono) simp_all
    then have "fl x \<le> fl g" by (simp add: fl_def u)
    with assms(3) show ?thesis by simp
  next
    case False
    have "- 1022 \<le> Ex" by (simp add: Ex_def)
    with le False have lt: "Ex + 1 \<le> Eg" "- 1022 < Eg" by linarith+
    then have Eg: "Eg = binade g" by (simp add: Eg_def max_def split: if_splits)
    from significand_le [OF assms(1)]
    have "(of_int (round_half_even (x / ulp x)) :: real) \<le> of_int (2 ^ 53)"
      by (simp only: of_int_le_iff)
    then have "fl x \<le> 2 ^ 53 * ulp x"
      unfolding fl_def by (intro mult_right_mono) simp_all
    also have "\<dots> = 2 powi (Ex + 1)" by (simp only: two_powi_53_ulp Ex_def)
    also have "\<dots> \<le> 2 powi Eg" by (rule two_powi_mono [OF lt(1)])
    also have "\<dots> \<le> \<bar>g\<bar>" unfolding Eg using pos(2) by (intro binade_bounds) simp
    finally show ?thesis using pos(2) by simp
  qed
qed


lemma fl_sub_exact:
  assumes "fl x = x" "0 \<le> y" "y \<le> x" "y = of_int m * ulp x"
  shows "fl (x - y) = x - y"
proof -
  define N where "N = round_half_even (x / ulp x)"
  from assms have x0: "0 \<le> x" by simp
  from float_significand [OF assms(1)] have "x / ulp x = of_int N" by (simp add: N_def)
  then have x: "x = of_int N * ulp x" by (simp add: field_simps)
  have d: "x - y = of_int (N - m) * 2 powi (max (binade x) (- 1022) - 52)"
    using x assms(4) by (simp add: ulp_eq [symmetric] algebra_simps)
  have nonneg: "0 \<le> k" if "0 \<le> of_int k * ulp x" for k :: int
  proof (rule ccontr)
    assume "\<not> 0 \<le> k"
    then have "(of_int k :: real) < 0" by simp
    then have "of_int k * ulp x < 0" by (rule mult_neg_pos) simp
    with that show False by simp
  qed
  from assms(3) have "0 \<le> x - y" by simp
  then have "0 \<le> of_int (N - m) * ulp x" by (simp only: d ulp_eq)
  then have 1: "0 \<le> N - m" by (rule nonneg)
  from assms(2,4) have "0 \<le> of_int m * ulp x" by simp
  then have "0 \<le> m" by (rule nonneg)
  with significand_le [OF x0] have 2: "N - m \<le> 2 ^ 53" by (simp add: N_def)
  show ?thesis by (rule fl_exact [OF d 1 2]) simp
qed

lemma fl_of_nat_small: "n \<le> 2 ^ 53 \<Longrightarrow> 0 \<le> n \<Longrightarrow> fl (of_int n) = of_int n"
  by (rule fl_exact [of _ n 0]) simp_all

lemma fl_numerals [simp]: "fl 1 = 1" "fl 60 = 60"
  using fl_of_nat_small [of 1] fl_of_nat_small [of 60] by simp_all

lemma trunc_nonneg: "0 \<le> x \<Longrightarrow> trunc x = \<lfloor>x\<rfloor>"
  by (simp add: trunc_def)

lemma arcminute_bounds:
  assumes "0 \<le> pos"
  shows "0 \<le> py_round (fl (fl (pos - of_int \<lfloor>pos\<rfloor>) * 60))"
    and "py_round (fl (fl (pos - of_int \<lfloor>pos\<rfloor>) * 60)) \<le> 60"
proof -
  let ?z = "pos - of_int \<lfloor>pos\<rfloor>"
  have z: "0 \<le> ?z" "?z \<le> 1" by linarith+
  have t: "0 \<le> fl ?z" "fl ?z \<le> 1"
    using z by (auto intro: fl_nonneg fl_le)
  then have w: "0 \<le> fl ?z * 60" "fl ?z * 60 \<le> 60" by simp_all
  have u: "0 \<le> fl (fl ?z * 60)" "fl (fl ?z * 60) \<le> 60"
    using w by (auto intro: fl_nonneg fl_le)
  from u(1) have "of_int 0 \<le> fl (fl ?z * 60)" by simp
  then show "0 \<le> py_round (fl (fl ?z * 60))"
    unfolding py_round_def by (rule round_half_even_ge)
  from u(2) have "fl (fl ?z * 60) \<le> of_int 60" by simp
  then show "py_round (fl (fl ?z * 60)) \<le> 60"
    unfolding py_round_def by (rule round_half_even_le)
qed


section \<open>Degrees and arcminutes\<close>

text \<open>
  C1. For a position in sign from 0 up to, and not including, 30,
  \<open>round_to_arcminute\<close> returns degrees in 0..29 and minutes in 0..59, never 60 minutes.
  When the rounded minutes are 60 it returns the next degree with 0 minutes, except at
  degree 29, where it returns (29, 59) and not (30, 0); otherwise it returns the whole
  degrees and the rounded minutes. The float 29.9999 gives (29, 59).
\<close>

theorem round_to_arcminute_range:
  assumes "0 \<le> pos" "pos < 30"
  shows "0 \<le> fst (round_to_arcminute pos) \<and> fst (round_to_arcminute pos) \<le> 29
     \<and> 0 \<le> snd (round_to_arcminute pos) \<and> snd (round_to_arcminute pos) \<le> 59
     \<and> (py_round (fl (fl (pos - of_int \<lfloor>pos\<rfloor>) * 60)) = 60 \<longrightarrow>
          round_to_arcminute pos = (if \<lfloor>pos\<rfloor> = 29 then (29, 59) else (\<lfloor>pos\<rfloor> + 1, 0)))
     \<and> (py_round (fl (fl (pos - of_int \<lfloor>pos\<rfloor>) * 60)) \<noteq> 60 \<longrightarrow>
          round_to_arcminute pos = (\<lfloor>pos\<rfloor>, py_round (fl (fl (pos - of_int \<lfloor>pos\<rfloor>) * 60))))"
proof -
  define d where "d = \<lfloor>pos\<rfloor>"
  define m where "m = py_round (fl (fl (pos - of_int d) * 60))"
  from assms have d: "0 \<le> d" "d \<le> 29" by (simp_all add: d_def)
  from arcminute_bounds [OF assms(1)] have m: "0 \<le> m" "m \<le> 60" by (simp_all add: m_def d_def)
  have r: "round_to_arcminute pos =
      (if m = 60 then (if d = 29 then (29, 59) else (d + 1, 0)) else (d, m))"
    by (simp add: round_to_arcminute_def trunc_nonneg [OF assms(1)] Let_def m_def d_def)
  from d m have "0 \<le> fst (round_to_arcminute pos) \<and> fst (round_to_arcminute pos) \<le> 29
     \<and> 0 \<le> snd (round_to_arcminute pos) \<and> snd (round_to_arcminute pos) \<le> 59
     \<and> (m = 60 \<longrightarrow> round_to_arcminute pos = (if d = 29 then (29, 59) else (d + 1, 0)))
     \<and> (m \<noteq> 60 \<longrightarrow> round_to_arcminute pos = (d, m))"
    unfolding r by auto
  then show ?thesis unfolding m_def d_def .
qed

theorem round_to_arcminute_range_witness:
  "0 \<le> fl 29.9999 \<and> fl 29.9999 < 30
   \<and> round_to_arcminute (fl 29.9999) = (29, 59)
   \<and> round_to_arcminute (fl 29.9999) \<noteq> (30, 0)
   \<and> round_to_arcminute (81 / 4) = (20, 15)"
proof -
  have h: "0 \<le> fl 29.9999" "fl 29.9999 < 30" by code_simp+
  have f: "\<lfloor>fl 29.9999\<rfloor> = 29" by code_simp
  have m: "py_round (fl (fl (fl 29.9999 - of_int \<lfloor>fl 29.9999\<rfloor>) * 60)) = 60" by code_simp
  have a: "round_to_arcminute (fl 29.9999) = (29, 59)"
    using round_to_arcminute_range [OF h] m f by simp
  have h': "0 \<le> (81 / 4 :: real)" "(81 / 4 :: real) < 30" by simp_all
  have f': "\<lfloor>81 / 4 :: real\<rfloor> = 20" by simp
  have m': "py_round (fl (fl (81 / 4 - of_int \<lfloor>81 / 4 :: real\<rfloor>) * 60)) = 15" by code_simp
  have b: "round_to_arcminute (81 / 4) = (20, 15)"
    using round_to_arcminute_range [OF h'] m' f' by simp
  from h a b show ?thesis by simp
qed


section \<open>Signs\<close>

lemma SIGNS_length [simp]: "length SIGNS = 12"
  by (simp add: SIGNS_def)

lemma ulp_divides_int:
  assumes "max (binade x) (- 1022) \<le> 52"
  shows "of_int j = of_int (j * 2 ^ nat (52 - max (binade x) (- 1022))) * ulp x"
proof -
  define E where "E = max (binade x) (- 1022)"
  from assms have E: "0 \<le> 52 - E" by (simp add: E_def)
  have "ulp x = 2 powi (- (52 - E))" by (simp add: ulp_eq E_def)
  also have "\<dots> = 1 / 2 powi (52 - E)" by (simp only: power_int_minus_divide)
  also have "\<dots> = 1 / 2 ^ nat (52 - E)" using E by (simp add: power_int_nonneg_exp)
  finally have "ulp x * 2 ^ nat (52 - E) = 1" by simp
  then have "of_int j = of_int j * (2 ^ nat (52 - E) * ulp x)" by (simp add: mult.commute)
  then show ?thesis unfolding E_def by (simp add: mult.assoc)
qed

lemma binade_below_512:
  assumes "0 \<le> x" "x < 512"
  shows "max (binade x) (- 1022) \<le> 52"
proof (cases "x = 0")
  case True
  then show ?thesis by (simp add: binade_def)
next
  case False
  from binade_bounds(1) [OF False] assms have "2 powi (binade x) < (2::real) powi 9" by simp
  then have "binade x < 9" by (rule two_powi_less_cancel)
  then show ?thesis by simp
qed

lemma normalize_deg_id:
  assumes "0 \<le> L" "L < 360"
  shows "normalize_deg L = L"
proof -
  from assms have "\<lfloor>L / 360\<rfloor> = 0" by (simp add: floor_eq_iff)
  with assms(1) have "c_fmod L 360 = L" by (simp add: c_fmod_def trunc_def)
  with assms(1) show ?thesis by (simp add: normalize_deg_def py_float_mod_def)
qed

lemma py_float_floordiv_30:
  assumes "0 \<le> L" "L < 360"
  shows "py_float_floordiv L 30 = of_int \<lfloor>L / 30\<rfloor>"
proof -
  define k where "k = \<lfloor>L / 30\<rfloor>"
  from assms have k: "0 \<le> k" "k \<le> 11" by (simp_all add: k_def floor_less_iff le_floor_iff)
  have m: "c_fmod L 30 = L - 30 * of_int k"
    using assms(1) by (simp add: c_fmod_def trunc_def k_def)
  have pos: "\<not> L < 30 * of_int k"
    unfolding k_def using floor_divide_lower [of 30 L] by (simp add: mult.commute)
  have e1: "fl (30 * of_int k) = 30 * of_int k"
    using fl_of_nat_small [of "30 * k"] k by simp
  have e2: "fl (of_int k) = of_int k"
    using fl_of_nat_small [of k] k by simp
  show ?thesis
    unfolding py_float_floordiv_def m k_def [symmetric]
    by (simp add: pos e1 e2 Let_def)
qed


lemma zodiac_in_circle:
  assumes "is_float L" "0 \<le> L" "L < 360"
  shows "zodiac_sign_and_pos L = Inr (SIGNS ! nat \<lfloor>L / 30\<rfloor>, L - 30 * of_int \<lfloor>L / 30\<rfloor>)
     \<and> nat \<lfloor>L / 30\<rfloor> < length SIGNS
     \<and> 0 \<le> L - 30 * of_int \<lfloor>L / 30\<rfloor> \<and> L - 30 * of_int \<lfloor>L / 30\<rfloor> < 30"
proof -
  define k where "k = \<lfloor>L / 30\<rfloor>"
  from assms have k: "0 \<le> k" "k \<le> 11" by (simp_all add: k_def floor_less_iff le_floor_iff)
  have lo: "30 * of_int k \<le> L"
    unfolding k_def using floor_divide_lower [of 30 L] by (simp add: mult.commute)
  have hi: "L < 30 * of_int k + 30"
    unfolding k_def using floor_divide_upper [of 30 L] by (simp add: algebra_simps)
  from assms have E: "max (binade L) (- 1022) \<le> 52" by (intro binade_below_512) simp_all
  have e1: "fl (of_int k * 30) = of_int k * 30"
    using fl_of_nat_small [of "k * 30"] k by simp
  have "fl (L - of_int (k * 30)) = L - of_int (k * 30)"
  proof (rule fl_sub_exact [OF _ _ _ ulp_divides_int [OF E]])
    show "fl L = L" using assms(1) by (simp add: is_float_def)
    show "0 \<le> (of_int (k * 30) :: real)" using k by simp
    show "of_int (k * 30) \<le> L" using lo by (simp add: mult.commute)
  qed
  then have e2: "fl (L - of_int k * 30) = L - of_int k * 30" by simp
  have i: "py_index SIGNS k = Inr (SIGNS ! nat k)"
    using k by (simp add: py_index_def)
  have "zodiac_sign_and_pos L = Inr (SIGNS ! nat k, L - of_int k * 30)"
    using k
    by (simp add: zodiac_sign_and_pos_def Let_def normalize_deg_id [OF assms(2,3)]
        py_float_floordiv_30 [OF assms(2,3)] k_def [symmetric] trunc_nonneg i e1 e2)
  with k lo hi show ?thesis
    unfolding k_def [symmetric] by (simp add: mult.commute)
qed

text \<open>
  C5. For a float longitude \<open>L\<close> from 0 up to, and not including, 360,
  \<open>zodiac_sign_and_pos\<close> returns the sign \<open>SIGNS[floor(L/30)]\<close>, an index inside the list,
  and the position in sign \<open>L - 30 * floor(L/30)\<close>, computed without rounding error, which
  lies in [0, 30).
\<close>

theorem zodiac_sign_and_pos_in_circle:
  assumes "is_float L" "0 \<le> L" "L < 360"
  shows "zodiac_sign_and_pos L = Inr (SIGNS ! nat \<lfloor>L / 30\<rfloor>, L - 30 * of_int \<lfloor>L / 30\<rfloor>)
     \<and> nat \<lfloor>L / 30\<rfloor> < length SIGNS
     \<and> 0 \<le> L - 30 * of_int \<lfloor>L / 30\<rfloor> \<and> L - 30 * of_int \<lfloor>L / 30\<rfloor> < 30"
  using assms by (rule zodiac_in_circle)

theorem zodiac_sign_and_pos_in_circle_witness:
  "is_float (801 / 4) \<and> (0::real) \<le> 801 / 4 \<and> (801 / 4 :: real) < 360
   \<and> zodiac_sign_and_pos (801 / 4) = Inr (''Libra'', 81 / 4)
   \<and> zodiac_sign_and_pos 0 = Inr (''Aries'', 0)
   \<and> is_float (360 - 1 / 2 ^ 44)
   \<and> zodiac_sign_and_pos (360 - 1 / 2 ^ 44) = Inr (''Pisces'', 30 - 1 / 2 ^ 44)"
proof -
  have f: "is_float (801 / 4)" "is_float 0" "is_float (360 - 1 / 2 ^ 44)" by code_simp+
  have k: "\<lfloor>(801 / 4 :: real) / 30\<rfloor> = 6" "\<lfloor>(0 :: real) / 30\<rfloor> = 0"
    "\<lfloor>(360 - 1 / 2 ^ 44 :: real) / 30\<rfloor> = 11"
    by (simp_all add: floor_eq_iff)
  have s: "SIGNS ! 6 = ''Libra''" "SIGNS ! 0 = ''Aries''" "SIGNS ! 11 = ''Pisces''"
    by (simp_all add: SIGNS_def)
  have "zodiac_sign_and_pos (801 / 4) = Inr (''Libra'', 81 / 4)"
    using zodiac_sign_and_pos_in_circle [OF f(1)] by (simp add: k s)
  moreover have "zodiac_sign_and_pos 0 = Inr (''Aries'', 0)"
    using zodiac_sign_and_pos_in_circle [OF f(2)] by (simp add: s)
  moreover have "zodiac_sign_and_pos (360 - 1 / 2 ^ 44) = Inr (''Pisces'', 30 - 1 / 2 ^ 44)"
    using zodiac_sign_and_pos_in_circle [OF f(3)] by (simp add: k s)
  ultimately show ?thesis using f by simp
qed

section \<open>Adding a full circle\<close>








lemma fl_360 [simp]: "fl 360 = 360"
  using fl_of_nat_small [of 360] by simp











lemma fl_720 [simp]: "fl 720 = 720"
  using fl_of_nat_small [of 720] by simp







section \<open>Longitudes just below zero\<close>

text \<open>
  C10. The claim is that \<open>normalize_deg\<close> returns a value in [0, 360) for every finite
  float, so that the sign index stays in 0..11. For the float \<open>- 1 / 2 ^ 70\<close> the remainder is
  the input itself, adding 360 rounds to 360, the sign index is 12 and the lookup in
  \<open>SIGNS\<close> raises \<^verbatim>\<open>IndexError\<close>.
\<close>

theorem zodiac_sign_and_pos_tiny_negative:
  "is_float (- 1 / 2 ^ 70)
   \<and> normalize_deg (- 1 / 2 ^ 70) = 360
   \<and> zodiac_sign_and_pos (- 1 / 2 ^ 70) = Inl IndexError"
  by code_simp


section \<open>House numbers\<close>

lemma stub_obliquity: "obliquity (stub_env\<lparr>house_pos := f\<rparr>) 0 [15, 285, 567 / 2, 0, 0, 0, 0, 0] = Inr (375 / 16)"
  by (simp add: obliquity_def stub_env_def lib_def FLAGS_def py_index_def)

text \<open>
  C2. Whatever raw house position the house-position function returns, in range or not,
  \<open>house_for_longitude\<close> returns its floor clamped into 1..12: a floor below 1 gives
  house 1 and a floor above 12 gives house 12. The raw positions 13.2, 0.5 and 5.83 give
  the houses 12, 1 and 5.
\<close>

theorem house_for_longitude_floor_clamp:
  assumes "obliquity E jd_ut ascmc = Inr obliq"
    and "py_index ascmc 2 = Inr armc"
    and "house_pos E armc lat obliq [ecl_lon, 0] HOUSE_SYSTEM = Inr hpos"
  shows "house_for_longitude E jd_ut lat lon ecl_lon houses ascmc = Inr (max 1 (min 12 \<lfloor>hpos\<rfloor>))"
proof -
  have clamp: "(let h = n; h = (if h < 1 then 1 else h); h = (if h > 12 then 12 else h)
                in (Inr h :: error + int)) = Inr (max 1 (min 12 n))" for n :: int
    by (simp add: Let_def max_def min_def)
  show ?thesis
    by (simp only: house_for_longitude_def assms lib_def sum.case clamp)
qed

theorem house_for_longitude_floor_clamp_witness:
  "house_for_longitude (stub_env\<lparr>house_pos := \<lambda>armc lat eps xs hsys. Inr 13.2\<rparr>) 0 51.5 0 100
      [] [15, 285, 567 / 2, 0, 0, 0, 0, 0] = Inr 12
   \<and> house_for_longitude (stub_env\<lparr>house_pos := \<lambda>armc lat eps xs hsys. Inr 0.5\<rparr>) 0 51.5 0 100
      [] [15, 285, 567 / 2, 0, 0, 0, 0, 0] = Inr 1
   \<and> house_for_longitude (stub_env\<lparr>house_pos := \<lambda>armc lat eps xs hsys. Inr 5.83\<rparr>) 0 51.5 0 100
      [] [15, 285, 567 / 2, 0, 0, 0, 0, 0] = Inr 5"
proof -
  let ?a = "[15, 285, 567 / 2, 0, 0, 0, 0, 0] :: real list"
  have i: "py_index ?a 2 = Inr (567 / 2)" by (simp add: py_index_def)
  have f1: "\<lfloor>13.2 :: real\<rfloor> = 13" by (simp add: floor_eq_iff)
  have f2: "\<lfloor>0.5 :: real\<rfloor> = 0" by (simp add: floor_eq_iff)
  have f3: "\<lfloor>5.83 :: real\<rfloor> = 5" by (simp add: floor_eq_iff)
  have "house_for_longitude (stub_env\<lparr>house_pos := \<lambda>armc lat eps xs hsys. Inr 13.2\<rparr>) 0 51.5 0 100 [] ?a
          = Inr (max 1 (min 12 \<lfloor>13.2 :: real\<rfloor>))"
    by (rule house_for_longitude_floor_clamp [OF stub_obliquity i]) simp
  moreover
  have "house_for_longitude (stub_env\<lparr>house_pos := \<lambda>armc lat eps xs hsys. Inr 0.5\<rparr>) 0 51.5 0 100 [] ?a
          = Inr (max 1 (min 12 \<lfloor>0.5 :: real\<rfloor>))"
    by (rule house_for_longitude_floor_clamp [OF stub_obliquity i]) simp
  moreover
  have "house_for_longitude (stub_env\<lparr>house_pos := \<lambda>armc lat eps xs hsys. Inr 5.83\<rparr>) 0 51.5 0 100 [] ?a
          = Inr (max 1 (min 12 \<lfloor>5.83 :: real\<rfloor>))"
    by (rule house_for_longitude_floor_clamp [OF stub_obliquity i]) simp
  ultimately show ?thesis
    by (simp only: f1 f2 f3) simp
qed

section \<open>Geocoding\<close>

lemma lib_not_http [simp]: "lib r \<noteq> Inl (HTTPException c d)"
  by (simp add: lib_def split: sum.splits)

lemma raise_for_status_not_http [simp]: "raise_for_status r \<noteq> Inl (HTTPException c d)"
  by (simp add: raise_for_status_def)

lemma py_index_not_http [simp]: "py_index xs i \<noteq> Inl (HTTPException c d)"
  by (simp add: py_index_def)

lemma dict_get_not_http [simp]: "dict_get j k \<noteq> Inl (HTTPException c d)"
  by (cases j) simp_all

lemma first_item_not_http [simp]: "first_item j \<noteq> Inl (HTTPException c d)"
  by (cases j) (simp_all add: py_index_def)

lemma subscript_str_not_http [simp]: "subscript_str j k \<noteq> Inl (HTTPException c d)"
  by (cases j) (simp_all split: option.splits)

lemma py_float_not_http [simp]: "py_float p j \<noteq> Inl (HTTPException c d)"
  by (cases j) (simp_all split: option.splits)

lemma open_meteo_lookup_http:
  assumes "open_meteo_lookup E q = Inl (HTTPException c d)"
  shows "HTTPException c d = HTTPException 404 ''Location not found. Try 'City, State, Country'.''"
  using assms unfolding open_meteo_lookup_def Let_def
  by (simp split: sum.splits if_splits)

lemma geocode_location_outcomes:
  "(\<exists>res. geocode_location E q = Inr res)
   \<or> geocode_location E q = Inl (HTTPException 404 ''Location not found. Try 'City, State, Country'.'')
   \<or> (\<exists>d. geocode_location E q = Inl (HTTPException 502 d))"
proof (cases "open_meteo_lookup E q")
  case (Inr res)
  then show ?thesis
    by (cases res) (simp add: geocode_location_def split: sum.splits option.splits)
next
  case (Inl e)
  show ?thesis
  proof (cases e)
    case (HTTPException c d)
    with Inl open_meteo_lookup_http [of E q c d] show ?thesis
      by (simp add: geocode_location_def split: sum.splits option.splits)
  qed (use Inl in \<open>simp_all add: geocode_location_def split: sum.splits option.splits\<close>)
qed

lemma geocode_location_primary_found:
  "nominatim_geocode E q = Inr (Some loc) \<Longrightarrow>
   geocode_location E q = Inr (latitude loc, longitude loc, raw loc)"
  by (simp add: geocode_location_def)

lemma open_meteo_lookup_primary [simp]:
  "open_meteo_lookup (E\<lparr>nominatim_geocode := f\<rparr>) q = open_meteo_lookup E q"
  by (simp add: open_meteo_lookup_def cong: sum.case_cong if_cong)

lemma geocode_location_swallow:
  "nominatim_geocode E q = Inl msg \<or> nominatim_geocode E q = Inr None \<Longrightarrow>
   geocode_location E q = geocode_location (E\<lparr>nominatim_geocode := \<lambda>_. Inr None\<rparr>) q"
  by (auto simp add: geocode_location_def)

lemma open_meteo_lookup_one_request:
  "f (open_meteo_request q) = g (open_meteo_request q) \<Longrightarrow>
   open_meteo_lookup (E\<lparr>requests_get := f\<rparr>) q = open_meteo_lookup (E\<lparr>requests_get := g\<rparr>) q"
  by (simp add: open_meteo_lookup_def cong: sum.case_cong if_cong)

lemma geocode_location_one_request:
  "f (open_meteo_request q) = g (open_meteo_request q) \<Longrightarrow>
   geocode_location (E\<lparr>requests_get := f\<rparr>) q = geocode_location (E\<lparr>requests_get := g\<rparr>) q"
  by (simp add: geocode_location_def open_meteo_lookup_one_request [of f q g E]
        cong: option.case_cong)

lemma geocode_location_no_results:
  assumes "nominatim_geocode E q = Inl msg \<or> nominatim_geocode E q = Inr None"
    and "requests_get E (open_meteo_request q) = Inr r" and "raise_for_status r = Inr ()"
    and "json_body r = Inr data" and "dict_get data ''results'' = Inr got" and "\<not> py_truthy got"
  shows "geocode_location E q = Inl (HTTPException 404 ''Location not found. Try 'City, State, Country'.'')"
  using assms by (auto simp add: geocode_location_def open_meteo_lookup_def lib_def)

lemma geocode_location_request_error:
  assumes "nominatim_geocode E q = Inl msg \<or> nominatim_geocode E q = Inr None"
    and "requests_get E (open_meteo_request q) = Inl m"
  shows "geocode_location E q = Inl (HTTPException 502 (''Geocoding error: '' @ m))"
  using assms by (auto simp add: geocode_location_def open_meteo_lookup_def lib_def)

lemma geocode_location_status_error:
  assumes "nominatim_geocode E q = Inl msg \<or> nominatim_geocode E q = Inr None"
    and "requests_get E (open_meteo_request q) = Inr r" and "400 \<le> status_code r" "status_code r < 600"
  shows "geocode_location E q =
           Inl (HTTPException 502 (''Geocoding error: '' @ http_error_message r))"
  using assms by (auto simp add: geocode_location_def open_meteo_lookup_def lib_def raise_for_status_def)

lemma geocode_location_json_error:
  assumes "nominatim_geocode E q = Inl msg \<or> nominatim_geocode E q = Inr None"
    and "requests_get E (open_meteo_request q) = Inr r" and "raise_for_status r = Inr ()"
    and "json_body r = Inl m"
  shows "geocode_location E q = Inl (HTTPException 502 (''Geocoding error: '' @ m))"
  using assms by (auto simp add: geocode_location_def open_meteo_lookup_def lib_def)


text \<open>
  C3. \<open>geocode_location\<close> asks the primary provider first, and a place it finds is the
  answer. When the primary raises or finds nothing, its failure is swallowed: the result
  is the one for a primary that found nothing. The fallback provider is then sent one
  request, with \<open>count\<close> 1. When that request raises, the status is an error or the body
  is not JSON, the outcome is HTTP 502; when the fallback has no results, it is HTTP 404
  with the detail naming 'City, State, Country'. No other error leaves the function.
\<close>

theorem geocode_location_fallback:
  "(\<forall>loc. nominatim_geocode E q = Inr (Some loc) \<longrightarrow>
      geocode_location E q = Inr (latitude loc, longitude loc, raw loc))
   \<and> ((\<exists>msg. nominatim_geocode E q = Inl msg) \<or> nominatim_geocode E q = Inr None \<longrightarrow>
        geocode_location E q = geocode_location (E\<lparr>nominatim_geocode := \<lambda>_. Inr None\<rparr>) q
      \<and> (\<forall>m. requests_get E (open_meteo_request q) = Inl m \<longrightarrow>
            geocode_location E q = Inl (HTTPException 502 (''Geocoding error: '' @ m)))
      \<and> (\<forall>r. requests_get E (open_meteo_request q) = Inr r \<longrightarrow>
            400 \<le> status_code r \<longrightarrow> status_code r < 600 \<longrightarrow>
            (\<exists>d. geocode_location E q = Inl (HTTPException 502 d)))
      \<and> (\<forall>r m. requests_get E (open_meteo_request q) = Inr r \<longrightarrow>
            raise_for_status r = Inr () \<longrightarrow> json_body r = Inl m \<longrightarrow>
            geocode_location E q = Inl (HTTPException 502 (''Geocoding error: '' @ m)))
      \<and> (\<forall>r data got. requests_get E (open_meteo_request q) = Inr r \<longrightarrow>
            raise_for_status r = Inr () \<longrightarrow> json_body r = Inr data \<longrightarrow>
            dict_get data ''results'' = Inr got \<longrightarrow> \<not> py_truthy got \<longrightarrow>
            geocode_location E q =
              Inl (HTTPException 404 ''Location not found. Try 'City, State, Country'.'')))
   \<and> ((\<exists>res. geocode_location E q = Inr res)
      \<or> geocode_location E q =
          Inl (HTTPException 404 ''Location not found. Try 'City, State, Country'.'')
      \<or> (\<exists>d. geocode_location E q = Inl (HTTPException 502 d)))
   \<and> map_of (params (open_meteo_request q)) ''count'' = Some (PInt 1)
   \<and> (\<forall>f g. f (open_meteo_request q) = g (open_meteo_request q) \<longrightarrow>
         geocode_location (E\<lparr>requests_get := f\<rparr>) q = geocode_location (E\<lparr>requests_get := g\<rparr>) q)"
proof (intro conjI allI impI)
  show "map_of (params (open_meteo_request q)) ''count'' = Some (PInt 1)"
    by (simp add: open_meteo_request_def)
  show "(\<exists>res. geocode_location E q = Inr res)
      \<or> geocode_location E q =
          Inl (HTTPException 404 ''Location not found. Try 'City, State, Country'.'')
      \<or> (\<exists>d. geocode_location E q = Inl (HTTPException 502 d))"
    by (rule geocode_location_outcomes)
qed (blast intro: geocode_location_primary_found geocode_location_swallow
       geocode_location_request_error geocode_location_status_error
       geocode_location_json_error geocode_location_no_results
       geocode_location_one_request)+

theorem geocode_location_fallback_witness:
  "geocode_location
     (stub_env\<lparr>nominatim_geocode := \<lambda>q. Inl ''timed out'',
        requests_get := \<lambda>r. Inr \<lparr>status_code = 200, http_error_message = [],
                                  json_body = Inr (JObj [(''results'', JArr [])])\<rparr>\<rparr>)
     ''Atlantis'' = Inl (HTTPException 404 ''Location not found. Try 'City, State, Country'.'')
   \<and> geocode_location
     (stub_env\<lparr>nominatim_geocode := \<lambda>q. Inr None,
        requests_get := \<lambda>r. Inr \<lparr>status_code = 200, http_error_message = [], json_body = Inr (JObj [])\<rparr>\<rparr>)
     ''Atlantis'' = Inl (HTTPException 404 ''Location not found. Try 'City, State, Country'.'')
   \<and> geocode_location (stub_env\<lparr>nominatim_geocode := \<lambda>q. Inl ''timed out''\<rparr>) ''Atlantis''
       = Inl (HTTPException 502 ''Geocoding error: connection refused'')
   \<and> geocode_location
     (stub_env\<lparr>nominatim_geocode := \<lambda>q. Inr None,
        requests_get := \<lambda>r. Inr \<lparr>status_code = 503,
          http_error_message = ''503 Server Error: Service Unavailable'', json_body = Inr (JObj [])\<rparr>\<rparr>)
     ''Atlantis'' \<in> range (\<lambda>d. Inl (HTTPException 502 d))
   \<and> geocode_location
     (stub_env\<lparr>nominatim_geocode := \<lambda>q. Inr None,
        requests_get := \<lambda>r. Inr \<lparr>status_code = 200, http_error_message = [], json_body = Inl ''Expecting value''\<rparr>\<rparr>)
     ''Atlantis'' = Inl (HTTPException 502 ''Geocoding error: Expecting value'')
   \<and> geocode_location stub_env ''Greenwich, UK'' = Inr (103 / 2, 0, JNull)"
proof -
  let ?q = "''Atlantis''"
  let ?ok = "\<lambda>j. \<lambda>r :: http_request. (Inr \<lparr>status_code = 200, http_error_message = [], json_body = j\<rparr> :: string + response)"
  let ?E1 = "stub_env\<lparr>nominatim_geocode := \<lambda>q. Inl ''timed out'',
               requests_get := ?ok (Inr (JObj [(''results'', JArr [])]))\<rparr>"
  let ?E2 = "stub_env\<lparr>nominatim_geocode := \<lambda>q. Inr None, requests_get := ?ok (Inr (JObj []))\<rparr>"
  let ?E3 = "stub_env\<lparr>nominatim_geocode := \<lambda>q. Inl ''timed out''\<rparr>"
  let ?E4 = "stub_env\<lparr>nominatim_geocode := \<lambda>q. Inr None,
               requests_get := \<lambda>r. Inr \<lparr>status_code = 503,
          http_error_message = ''503 Server Error: Service Unavailable'', json_body = Inr (JObj [])\<rparr>\<rparr>"
  let ?E5 = "stub_env\<lparr>nominatim_geocode := \<lambda>q. Inr None, requests_get := ?ok (Inl ''Expecting value'')\<rparr>"
  note fails = geocode_location_fallback [THEN conjunct2, THEN conjunct1, THEN mp]
  note request_error = fails [THEN conjunct2, THEN conjunct1, rule_format]
  note status_error = fails [THEN conjunct2, THEN conjunct2, THEN conjunct1, rule_format]
  note json_error =
    fails [THEN conjunct2, THEN conjunct2, THEN conjunct2, THEN conjunct1, rule_format]
  note no_results =
    fails [THEN conjunct2, THEN conjunct2, THEN conjunct2, THEN conjunct2, rule_format]
  have "geocode_location ?E1 ?q = Inl (HTTPException 404 ''Location not found. Try 'City, State, Country'.'')"
    by (rule no_results) (simp add: raise_for_status_def)+
  moreover
  have "geocode_location ?E2 ?q = Inl (HTTPException 404 ''Location not found. Try 'City, State, Country'.'')"
    by (rule no_results) (simp add: raise_for_status_def)+
  moreover
  have "geocode_location ?E3 ?q = Inl (HTTPException 502 (''Geocoding error: '' @ ''connection refused''))"
    by (rule request_error) (simp add: stub_env_def)+
  moreover
  have "\<exists>d. geocode_location ?E4 ?q = Inl (HTTPException 502 d)"
    by (rule status_error) simp+
  then have "geocode_location ?E4 ?q \<in> range (\<lambda>d. Inl (HTTPException 502 d))"
    by auto
  moreover
  have "geocode_location ?E5 ?q = Inl (HTTPException 502 (''Geocoding error: '' @ ''Expecting value''))"
    by (rule json_error) (simp add: raise_for_status_def)+
  moreover
  have "geocode_location stub_env ''Greenwich, UK'' = Inr (103 / 2, 0, JNull)"
    using geocode_location_fallback [of stub_env "''Greenwich, UK''", THEN conjunct1]
    by (simp add: stub_env_def)
  ultimately show ?thesis by simp
qed

section \<open>Timezone resolution\<close>

lemma resolve_exact:
  "timezone_at E lat lon = Inr (Some name) \<Longrightarrow> name \<noteq> [] \<Longrightarrow>
   resolve_timezone_name E lat lon = Inr name"
  by (simp add: resolve_timezone_name_def lib_def not_str_def)

lemma resolve_closest:
  "timezone_at E lat lon = Inr tz1 \<Longrightarrow> not_str tz1 \<Longrightarrow>
   closest_timezone_at E lat lon = Inr (Some name) \<Longrightarrow> name \<noteq> [] \<Longrightarrow>
   resolve_timezone_name E lat lon = Inr name"
  by (simp add: resolve_timezone_name_def lib_def)

lemma resolve_nothing:
  "timezone_at E lat lon = Inr tz1 \<Longrightarrow> not_str tz1 \<Longrightarrow>
   closest_timezone_at E lat lon = Inr tz2 \<Longrightarrow> not_str tz2 \<Longrightarrow>
   resolve_timezone_name E lat lon =
     Inl (HTTPException 422 ''Could not resolve timezone for this location.'')"
  by (simp add: resolve_timezone_name_def lib_def not_str_def split: option.splits)

lemma resolve_exact_raises:
  "timezone_at E lat lon = Inl msg \<Longrightarrow> resolve_timezone_name E lat lon = Inl (Raised msg)"
  by (simp add: resolve_timezone_name_def lib_def)

lemma resolve_closest_raises:
  "timezone_at E lat lon = Inr tz1 \<Longrightarrow> not_str tz1 \<Longrightarrow>
   closest_timezone_at E lat lon = Inl msg \<Longrightarrow>
   resolve_timezone_name E lat lon = Inl (Raised msg)"
  by (simp add: resolve_timezone_name_def lib_def)

text \<open>
  C7, as stated: for every coordinate pair the outcome of \<open>resolve_timezone_name\<close> is a
  name of one of the two lookups or HTTP 422, and no other failure occurs. It fails where
  a lookup raises: the function has no handler, so the exception of the exact lookup, or of
  the closest-match lookup consulted after an empty exact lookup, leaves it as it is.
\<close>

theorem resolve_timezone_name_lookup_raises:
  "resolve_timezone_name
     (stub_env\<lparr>timezone_at := \<lambda>lat lon. Inl ''The coordinates are out of bounds''\<rparr>) 95 0
     = Inl (Raised ''The coordinates are out of bounds'')
   \<and> resolve_timezone_name
     (stub_env\<lparr>timezone_at := \<lambda>lat lon. Inl ''The coordinates are out of bounds''\<rparr>) 95 0
     \<noteq> Inl (HTTPException 422 ''Could not resolve timezone for this location.'')
   \<and> resolve_timezone_name
     (stub_env\<lparr>timezone_at := \<lambda>lat lon. Inl ''The coordinates are out of bounds''\<rparr>) 95 0
     \<notin> range Inr
   \<and> resolve_timezone_name
     (stub_env\<lparr>timezone_at := \<lambda>lat lon. Inr None,
        closest_timezone_at := \<lambda>lat lon. Inl ''no attribute closest_timezone_at''\<rparr>) 0 (- 30)
     = Inl (Raised ''no attribute closest_timezone_at'')
   \<and> resolve_timezone_name
     (stub_env\<lparr>timezone_at := \<lambda>lat lon. Inr None,
        closest_timezone_at := \<lambda>lat lon. Inl ''no attribute closest_timezone_at''\<rparr>) 0 (- 30)
     \<noteq> Inl (HTTPException 422 ''Could not resolve timezone for this location.'')"
  by (auto simp add: resolve_timezone_name_def lib_def not_str_def)

text \<open>
  C7, amended. \<open>resolve_timezone_name\<close> takes the name of the exact lookup when there is
  one; when the exact lookup returns nothing (\<^verbatim>\<open>None\<close> or an empty name) it takes the name
  of the closest-match lookup; when both return nothing it fails with HTTP 422. The only
  other failure is the exception of a lookup it consulted, which leaves the function
  unchanged: that of the exact lookup, or that of the closest-match lookup after an exact
  lookup that returned nothing.
\<close>

theorem resolve_timezone_name_strategies:
  "(\<forall>name. timezone_at E lat lon = Inr (Some name) \<longrightarrow> name \<noteq> [] \<longrightarrow>
      resolve_timezone_name E lat lon = Inr name)
   \<and> (\<forall>tz1 name. timezone_at E lat lon = Inr tz1 \<longrightarrow> not_str tz1 \<longrightarrow>
        closest_timezone_at E lat lon = Inr (Some name) \<longrightarrow> name \<noteq> [] \<longrightarrow>
        resolve_timezone_name E lat lon = Inr name)
   \<and> (\<forall>tz1 tz2. timezone_at E lat lon = Inr tz1 \<longrightarrow> not_str tz1 \<longrightarrow>
        closest_timezone_at E lat lon = Inr tz2 \<longrightarrow> not_str tz2 \<longrightarrow>
        resolve_timezone_name E lat lon =
          Inl (HTTPException 422 ''Could not resolve timezone for this location.''))
   \<and> (\<forall>tz1 tz2. timezone_at E lat lon = Inr tz1 \<longrightarrow> closest_timezone_at E lat lon = Inr tz2 \<longrightarrow>
        resolve_timezone_name E lat lon =
          (if \<not> not_str tz1 then Inr (the tz1)
           else if \<not> not_str tz2 then Inr (the tz2)
           else Inl (HTTPException 422 ''Could not resolve timezone for this location.'')))
   \<and> (\<forall>msg. timezone_at E lat lon = Inl msg \<longrightarrow>
        resolve_timezone_name E lat lon = Inl (Raised msg))
   \<and> (\<forall>tz1 msg. timezone_at E lat lon = Inr tz1 \<longrightarrow> not_str tz1 \<longrightarrow>
        closest_timezone_at E lat lon = Inl msg \<longrightarrow>
        resolve_timezone_name E lat lon = Inl (Raised msg))"
  apply (intro conjI allI impI)
       apply (erule (1) resolve_exact)
      apply (erule (3) resolve_closest)
     apply (erule (3) resolve_nothing)
    apply (simp add: resolve_timezone_name_def lib_def not_str_def split: option.splits)
   apply (erule resolve_exact_raises)
  apply (erule (2) resolve_closest_raises)
  done

theorem resolve_timezone_name_strategies_witness:
  "resolve_timezone_name stub_env 51.5 0 = Inr ''Europe/London''
   \<and> resolve_timezone_name
       (stub_env\<lparr>timezone_at := \<lambda>lat lon. Inr None,
          closest_timezone_at := \<lambda>lat lon. Inr (Some ''Etc/GMT+2'')\<rparr>) 0 (- 30) = Inr ''Etc/GMT+2''
   \<and> resolve_timezone_name
       (stub_env\<lparr>timezone_at := \<lambda>lat lon. Inr (Some ''''),
          closest_timezone_at := \<lambda>lat lon. Inr (Some ''Etc/GMT+2'')\<rparr>) 0 (- 30) = Inr ''Etc/GMT+2''
   \<and> resolve_timezone_name (stub_env\<lparr>timezone_at := \<lambda>lat lon. Inr None\<rparr>) 0 (- 30)
       = Inl (HTTPException 422 ''Could not resolve timezone for this location.'')
   \<and> resolve_timezone_name
       (stub_env\<lparr>closest_timezone_at := \<lambda>lat lon. Inl ''no attribute closest_timezone_at''\<rparr>)
       51.5 0 = Inr ''Europe/London''
   \<and> resolve_timezone_name
       (stub_env\<lparr>timezone_at := \<lambda>lat lon. Inl ''The coordinates are out of bounds''\<rparr>) 95 0
       = Inl (Raised ''The coordinates are out of bounds'')
   \<and> resolve_timezone_name
       (stub_env\<lparr>timezone_at := \<lambda>lat lon. Inr None,
          closest_timezone_at := \<lambda>lat lon. Inl ''no attribute closest_timezone_at''\<rparr>) 0 (- 30)
       = Inl (Raised ''no attribute closest_timezone_at'')"
proof -
  note exact = resolve_timezone_name_strategies [THEN conjunct1, rule_format]
  note closest = resolve_timezone_name_strategies [THEN conjunct2, THEN conjunct1, rule_format]
  note unresolvable =
    resolve_timezone_name_strategies [THEN conjunct2, THEN conjunct2, THEN conjunct1, rule_format]
  note exact_raises =
    resolve_timezone_name_strategies
      [THEN conjunct2, THEN conjunct2, THEN conjunct2, THEN conjunct2, THEN conjunct1, rule_format]
  note closest_raises =
    resolve_timezone_name_strategies
      [THEN conjunct2, THEN conjunct2, THEN conjunct2, THEN conjunct2, THEN conjunct2, rule_format]
  have "resolve_timezone_name stub_env 51.5 0 = Inr ''Europe/London''"
    by (rule exact) (simp add: stub_env_def)+
  moreover
  have "resolve_timezone_name
       (stub_env\<lparr>timezone_at := \<lambda>lat lon. Inr None,
          closest_timezone_at := \<lambda>lat lon. Inr (Some ''Etc/GMT+2'')\<rparr>) 0 (- 30) = Inr ''Etc/GMT+2''"
    by (rule closest) (simp add: not_str_def)+
  moreover
  have "resolve_timezone_name
       (stub_env\<lparr>timezone_at := \<lambda>lat lon. Inr (Some ''''),
          closest_timezone_at := \<lambda>lat lon. Inr (Some ''Etc/GMT+2'')\<rparr>) 0 (- 30) = Inr ''Etc/GMT+2''"
    by (rule closest) (simp add: not_str_def)+
  moreover
  have "resolve_timezone_name (stub_env\<lparr>timezone_at := \<lambda>lat lon. Inr None\<rparr>) 0 (- 30)
       = Inl (HTTPException 422 ''Could not resolve timezone for this location.'')"
    by (rule unresolvable) (simp add: not_str_def stub_env_def)+
  moreover
  have "resolve_timezone_name
       (stub_env\<lparr>closest_timezone_at := \<lambda>lat lon. Inl ''no attribute closest_timezone_at''\<rparr>)
       51.5 0 = Inr ''Europe/London''"
    by (rule exact) (simp add: stub_env_def)+
  moreover
  have "resolve_timezone_name
       (stub_env\<lparr>timezone_at := \<lambda>lat lon. Inl ''The coordinates are out of bounds''\<rparr>) 95 0
       = Inl (Raised ''The coordinates are out of bounds'')"
    by (rule exact_raises) simp
  moreover
  have "resolve_timezone_name
       (stub_env\<lparr>timezone_at := \<lambda>lat lon. Inr None,
          closest_timezone_at := \<lambda>lat lon. Inl ''no attribute closest_timezone_at''\<rparr>) 0 (- 30)
       = Inl (Raised ''no attribute closest_timezone_at'')"
    by (rule closest_raises) (simp add: not_str_def)+
  ultimately show ?thesis by simp
qed

section \<open>The ephemeris path at process start\<close>

lemma startup_sets_ephe_path_twice:
  "set_ephe_path_calls (startup base_dir path_exists) = [EPHE_PATH base_dir, ''./ephe'']
   \<and> ephe_path (startup base_dir path_exists) = Some ''./ephe''"
  by (simp add: startup_def set_ephe_path_def print_def process0_def Let_def)

text \<open>
  C4. The module sets the ephemeris path twice while it is loaded: first to the
  \<^verbatim>\<open>ephe\<close> directory beside the source file, then to \<^verbatim>\<open>./ephe\<close>, which the ephemeris
  library resolves against the working directory. For a module in \<^verbatim>\<open>/srv/app\<close> the path in
  force after start is \<^verbatim>\<open>./ephe\<close> and not \<^verbatim>\<open>/srv/app/ephe\<close>, the directory the start-up
  lines report on; a missing directory is printed and nothing is raised.
\<close>

theorem startup_ephe_path_not_install_relative:
  "EPHE_PATH ''/srv/app'' = ''/srv/app/ephe''
   \<and> ephe_path (startup ''/srv/app'' (\<lambda>p. False)) = Some ''./ephe''
   \<and> ephe_path (startup ''/srv/app'' (\<lambda>p. False)) \<noteq> Some (EPHE_PATH ''/srv/app'')
   \<and> length (set_ephe_path_calls (startup ''/srv/app'' (\<lambda>p. False))) = 2
   \<and> stdout (startup ''/srv/app'' (\<lambda>p. False)) =
       [''EPHE_PATH = /srv/app/ephe'', ''EPHE exists? False'', ''seas exists? False'']"
  by (simp add: startup_def set_ephe_path_def print_def process0_def Let_def EPHE_PATH_def
      path_join_def str_of_bool_def)

section \<open>Chart assembly\<close>

lemma py_index_in_set: "py_index xs i = Inr v \<Longrightarrow> v \<in> set xs"
  by (auto simp add: py_index_def split: if_splits)

lemma py_index_nth: "py_index xs (int n) = Inr v \<Longrightarrow> n < length xs \<and> v = xs ! n"
  by (auto simp add: py_index_def split: if_splits)

lemma zodiac_sign_in_SIGNS: "zodiac_sign_and_pos x = Inr (s, p) \<Longrightarrow> s \<in> set SIGNS"
  by (auto simp add: zodiac_sign_and_pos_def Let_def split: sum.splits dest: py_index_in_set)

lemma cusps_loop_houses:
  "cusps_loop i xs acc = Inr out \<Longrightarrow>
   map c_house out = map c_house acc @ map (\<lambda>k. i + int k) [0..<length xs]
   \<and> (\<forall>c \<in> set out. c \<in> set acc \<or> c_sign c \<in> set SIGNS)"
proof (induction xs arbitrary: i acc)
  case Nil
  then show ?case by simp
next
  case (Cons x xs)
  from Cons.prems obtain hs hp where
    z: "zodiac_sign_and_pos (normalize_deg x) = Inr (hs, hp)"
    and rest: "cusps_loop (i + 1) xs
        (acc @ [\<lparr>c_house = i, c_sign = hs, c_deg = fst (round_to_arcminute hp),
                 c_min = snd (round_to_arcminute hp), c_lon_deg = normalize_deg x\<rparr>]) = Inr out"
    by (auto simp add: Let_def split: sum.splits prod.splits)
  have shift: "map (\<lambda>k. i + int k) [0..<Suc n] = i # map (\<lambda>k. i + 1 + int k) [0..<n]" for n
    by (simp add: upt_rec [of 0 "Suc n"] map_Suc_upt [symmetric] del: upt_Suc)
  from Cons.IH [OF rest] zodiac_sign_in_SIGNS [OF z] show ?case
    by (auto simp add: shift simp del: upt_Suc)
qed

lemma chart_InrD:
  assumes "chart E req = Inr out"
  obtains lat lon raw_meta tz_name local_dt utc_dt houses ascmc where
    "geocode_location E (location_query req) = Inr (lat, lon, raw_meta)"
    "houses_ex E (julian_day_ut E utc_dt) lat lon HOUSE_SYSTEM = Inr (houses, ascmc)"
    "planets_loop E (julian_day_ut E utc_dt) lat lon houses ascmc PLANETS [] = Inr (planets out)"
    "cusps_loop 1 (if length houses = 12 then houses else drop 1 houses) [] = Inr (house_cusps out)"
    "in_julian_day_ut (input out) = julian_day_ut E utc_dt"
    "g_lat (in_geocoded (input out)) = lat" "g_lon (in_geocoded (input out)) = lon"
  using assms unfolding chart_def Let_def lib_def
  by (auto split: sum.splits prod.splits)


lemma planet_entry_retrograde:
  assumes "planet_entry E jd lat lon hs am b = Inr p"
  shows "\<exists>res. calc_ut E jd b FLAGS = Inr res \<and> 3 < length res \<and> retrograde p = (res ! 3 < 0)"
proof -
  from assms obtain res sp where
    c: "calc_ut E jd b FLAGS = Inr res" and i: "py_index res 3 = Inr sp"
    and r: "retrograde p = (sp < 0)"
    unfolding planet_entry_def Let_def lib_def
    by (auto split: sum.splits prod.splits)
  from py_index_nth [of res 3 sp] i have "3 < length res \<and> sp = res ! 3" by simp
  with c r show ?thesis by simp
qed

lemma dict_set_new: "k \<notin> fst ` set d \<Longrightarrow> dict_set k v d = d @ [(k, v)]"
  by (simp add: dict_set_def)

lemma planets_loop_entries:
  "planets_loop E jd lat lon hs am ps acc = Inr out \<Longrightarrow> distinct (map fst acc @ map fst ps) \<Longrightarrow>
   map fst out = map fst acc @ map fst ps
   \<and> set acc \<subseteq> set out
   \<and> (\<forall>(n, b) \<in> set ps. \<exists>p. (n, p) \<in> set out \<and> planet_entry E jd lat lon hs am b = Inr p)"
proof (induction ps arbitrary: acc)
  case Nil
  then show ?case by simp
next
  case (Cons nb ps)
  obtain n b where nb: "nb = (n, b)" by (cases nb)
  from Cons.prems(1) obtain p where
    e: "planet_entry E jd lat lon hs am b = Inr p"
    and rest: "planets_loop E jd lat lon hs am ps (dict_set n p acc) = Inr out"
    by (auto simp add: nb split: sum.splits)
  from Cons.prems(2) have new: "n \<notin> fst ` set acc" by (auto simp add: nb)
  have d: "dict_set n p acc = acc @ [(n, p)]" by (rule dict_set_new [OF new])
  from Cons.prems(2) have "distinct (map fst (acc @ [(n, p)]) @ map fst ps)"
    by (simp add: nb)
  from Cons.IH [OF rest [unfolded d] this] e show ?case
    by (auto simp add: nb)
qed

lemma PLANETS_names:
  "map fst PLANETS = [''Sun'', ''Moon'', ''Mercury'', ''Venus'', ''Mars'', ''Jupiter'', ''Saturn'',
                      ''Uranus'', ''Neptune'', ''Pluto'', ''Node(M)'']"
  by (simp add: PLANETS_def)

lemma PLANETS_distinct: "distinct (map fst PLANETS)"
  by (simp add: PLANETS_names)


subsection \<open>The chart of the stub environment\<close>

lemma stub_normalize:
  "normalize_deg (801 / 4) = 801 / 4" "normalize_deg (201 / 2) = 201 / 2"
  "normalize_deg 15 = 15" "normalize_deg 45 = 45" "normalize_deg 75 = 75"
  "normalize_deg 105 = 105" "normalize_deg 135 = 135" "normalize_deg 165 = 165"
  "normalize_deg 195 = 195" "normalize_deg 225 = 225" "normalize_deg 255 = 255"
  "normalize_deg 285 = 285" "normalize_deg 315 = 315" "normalize_deg 345 = 345"
  by (simp_all add: normalize_deg_id)

lemma stub_zodiac:
  "zodiac_sign_and_pos (801 / 4) = Inr (''Libra'', 81 / 4)"
  "zodiac_sign_and_pos (201 / 2) = Inr (''Cancer'', 21 / 2)"
  "zodiac_sign_and_pos 15 = Inr (''Aries'', 15)"
  "zodiac_sign_and_pos 45 = Inr (''Taurus'', 15)"
  "zodiac_sign_and_pos 75 = Inr (''Gemini'', 15)"
  "zodiac_sign_and_pos 105 = Inr (''Cancer'', 15)"
  "zodiac_sign_and_pos 135 = Inr (''Leo'', 15)"
  "zodiac_sign_and_pos 165 = Inr (''Virgo'', 15)"
  "zodiac_sign_and_pos 195 = Inr (''Libra'', 15)"
  "zodiac_sign_and_pos 225 = Inr (''Scorpio'', 15)"
  "zodiac_sign_and_pos 255 = Inr (''Sagittarius'', 15)"
  "zodiac_sign_and_pos 285 = Inr (''Capricorn'', 15)"
  "zodiac_sign_and_pos 315 = Inr (''Aquarius'', 15)"
  "zodiac_sign_and_pos 345 = Inr (''Pisces'', 15)"
  by code_simp+

lemma stub_round:
  "round_to_arcminute (81 / 4) = (20, 15)" "round_to_arcminute (21 / 2) = (10, 30)"
  "round_to_arcminute 15 = (15, 0)"
  by code_simp+

lemma stub_cusps:
  "cusps_loop 1 [15, 45, 75, 105, 135, 165, 195, 225, 255, 285, 315, 345] [] =
     Inr (map (\<lambda>(i, s, l). \<lparr>c_house = i, c_sign = s, c_deg = 15, c_min = 0, c_lon_deg = l\<rparr>)
       [(1, ''Aries'', 15), (2, ''Taurus'', 45), (3, ''Gemini'', 75), (4, ''Cancer'', 105),
        (5, ''Leo'', 135), (6, ''Virgo'', 165), (7, ''Libra'', 195), (8, ''Scorpio'', 225),
        (9, ''Sagittarius'', 255), (10, ''Capricorn'', 285), (11, ''Aquarius'', 315),
        (12, ''Pisces'', 345)])"
  by (simp add: stub_normalize stub_zodiac stub_round)

lemma stub_house:
  "house_for_longitude (stub_env\<lparr>houses_ex := h\<rparr>) jd lat lon ecl hs [15, 285, 567 / 2, 0, 0, 0, 0, 0]
     = Inr 5"
  by (simp add: house_for_longitude_def obliquity_def lib_def stub_env_def py_index_def FLAGS_def)

lemma stub_planet_entry:
  "b \<noteq> MERCURY \<Longrightarrow> b \<noteq> ECL_NUT \<Longrightarrow>
   planet_entry (stub_env\<lparr>houses_ex := h\<rparr>) jd lat lon hs [15, 285, 567 / 2, 0, 0, 0, 0, 0] b =
     Inr \<lparr>p_sign = ''Libra'', p_deg = 20, p_min = 15, p_lon_deg = 801 / 4,
          retrograde = False, house = 5\<rparr>"
proof -
  assume "b \<noteq> MERCURY" "b \<noteq> ECL_NUT"
  then have "calc_ut (stub_env\<lparr>houses_ex := h\<rparr>) jd b FLAGS = Inr [801 / 4, 0, 1, 1, 0, 0]"
    by (cases b) (simp_all add: stub_env_def)
  then show ?thesis
    by (simp add: planet_entry_def stub_house lib_def py_index_def
        stub_normalize stub_zodiac stub_round)
qed

lemma stub_planet_entry_mercury:
  "planet_entry (stub_env\<lparr>houses_ex := h\<rparr>) jd lat lon hs [15, 285, 567 / 2, 0, 0, 0, 0, 0] MERCURY =
     Inr \<lparr>p_sign = ''Cancer'', p_deg = 10, p_min = 30, p_lon_deg = 201 / 2,
          retrograde = True, house = 5\<rparr>"
proof -
  have "calc_ut (stub_env\<lparr>houses_ex := h\<rparr>) jd MERCURY FLAGS = Inr [201 / 2, 0, 1, - 1 / 2, 0, 0]"
    by (simp add: stub_env_def)
  then show ?thesis
    by (simp add: planet_entry_def stub_house lib_def py_index_def
        stub_normalize stub_zodiac stub_round)
qed

lemma stub_planets:
  "planets_loop (stub_env\<lparr>houses_ex := h\<rparr>) jd lat lon hs [15, 285, 567 / 2, 0, 0, 0, 0, 0] PLANETS [] =
     Inr (map (\<lambda>(n, b). (n, if b = MERCURY
         then \<lparr>p_sign = ''Cancer'', p_deg = 10, p_min = 30, p_lon_deg = 201 / 2,
               retrograde = True, house = 5\<rparr>
         else \<lparr>p_sign = ''Libra'', p_deg = 20, p_min = 15, p_lon_deg = 801 / 4,
               retrograde = False, house = 5\<rparr>)) PLANETS)"
  by (simp add: PLANETS_def NODE_BODY_def stub_planet_entry stub_planet_entry_mercury dict_set_def)

lemma stub_chart_succeeds:
  assumes "cusps_loop 1 (if length hs = 12 then hs else drop 1 hs) [] = Inr cs"
  shows "\<exists>out. chart (stub_env\<lparr>houses_ex := \<lambda>jd lat lon hsys.
            Inr (hs, [15, 285, 567 / 2, 0, 0, 0, 0, 0])\<rparr>) stub_request = Inr out"
proof -
  have g: "geocode_location (stub_env\<lparr>houses_ex := h\<rparr>) ''Greenwich, UK'' = Inr (103 / 2, 0, JNull)" for h
    by (simp add: geocode_location_def stub_env_def)
  have t: "resolve_timezone_name (stub_env\<lparr>houses_ex := h\<rparr>) lat lon = Inr ''Europe/London''" for h lat lon
    by (simp add: resolve_timezone_name_def stub_env_def lib_def not_str_def)
  have l: "\<exists>dt1 dt2. local_to_utc (stub_env\<lparr>houses_ex := h\<rparr>) y mo d hh mi tz = Inr (dt1, dt2)"
    for h y mo d hh mi tz
    by (simp add: local_to_utc_def stub_env_def lib_def)
  have a: "format_angle 15 = Inr \<lparr>a_sign = ''Aries'', a_deg = 15, a_min = 0, a_lon_deg = 15\<rparr>"
    "format_angle 285 = Inr \<lparr>a_sign = ''Capricorn'', a_deg = 15, a_min = 0, a_lon_deg = 285\<rparr>"
    by (simp_all add: format_angle_def stub_normalize stub_zodiac stub_round)
  obtain dt1 dt2 where l': "local_to_utc (stub_env\<lparr>houses_ex := \<lambda>jd lat lon hsys.
            Inr (hs, [15, 285, 567 / 2, 0, 0, 0, 0, 0])\<rparr>) 1990 6 15 12 0 ''Europe/London'' = Inr (dt1, dt2)"
    using l by blast
  show ?thesis
    unfolding chart_def
    by (simp add: stub_request_def g t l' lib_def py_index_def stub_planets a assms Let_def)
qed

subsection \<open>House cusps\<close>

text \<open>
  C8. When \<open>chart\<close> succeeds and the house computation returned 12 cusps, or 13 entries
  of which the first is unused, the result has exactly 12 house cusps, numbered 1 to 12 in
  this order, and the sign of each is one of the twelve \<open>SIGNS\<close>.
\<close>

theorem chart_house_cusps:
  assumes "chart E req = Inr out"
    and "houses_ex E (in_julian_day_ut (input out)) (g_lat (in_geocoded (input out)))
           (g_lon (in_geocoded (input out))) HOUSE_SYSTEM = Inr (houses, ascmc)"
    and "length houses = 12 \<or> length houses = 13"
  shows "length (house_cusps out) = 12
     \<and> map c_house (house_cusps out) = [1, 2, 3, 4, 5, 6, 7, 8, 9, 10, 11, 12]
     \<and> (\<forall>c \<in> set (house_cusps out). c_sign c \<in> set SIGNS)"
proof -
  from assms(1) obtain lat lon utc_dt houses' ascmc' where
    h: "houses_ex E (julian_day_ut E utc_dt) lat lon HOUSE_SYSTEM = Inr (houses', ascmc')"
    and c: "cusps_loop 1 (if length houses' = 12 then houses' else drop 1 houses') []
              = Inr (house_cusps out)"
    and eqs: "in_julian_day_ut (input out) = julian_day_ut E utc_dt"
      "g_lat (in_geocoded (input out)) = lat" "g_lon (in_geocoded (input out)) = lon"
    by (rule chart_InrD)
  from h assms(2) eqs have "houses' = houses" by simp
  with assms(3) have len: "length (if length houses' = 12 then houses' else drop 1 houses') = 12"
    by auto
  have twelve: "map (\<lambda>k. 1 + int k) [0..<12] = [1, 2, 3, 4, 5, 6, 7, 8, 9, 10, 11, 12]"
    by (simp add: upt_rec)
  from cusps_loop_houses [OF c] len twelve
  have m: "map c_house (house_cusps out) = [1, 2, 3, 4, 5, 6, 7, 8, 9, 10, 11, 12]"
    and s: "\<forall>c \<in> set (house_cusps out). c_sign c \<in> set SIGNS"
    by simp_all
  have "length (house_cusps out) = length (map c_house (house_cusps out))" by simp
  also have "\<dots> = 12" unfolding m by simp
  finally show ?thesis using m s by simp
qed


theorem chart_house_cusps_witness:
  "(\<exists>out. chart stub_env stub_request = Inr out
      \<and> length (house_cusps out) = 12
      \<and> map c_house (house_cusps out) = [1, 2, 3, 4, 5, 6, 7, 8, 9, 10, 11, 12]
      \<and> set (map c_sign (house_cusps out)) \<subseteq> set SIGNS)
   \<and> (\<exists>out. chart (stub_env\<lparr>houses_ex := \<lambda>jd lat lon hsys.
              Inr ([0, 15, 45, 75, 105, 135, 165, 195, 225, 255, 285, 315, 345],
                   [15, 285, 567 / 2, 0, 0, 0, 0, 0])\<rparr>) stub_request = Inr out
      \<and> length (house_cusps out) = 12
      \<and> map c_house (house_cusps out) = [1, 2, 3, 4, 5, 6, 7, 8, 9, 10, 11, 12]
      \<and> set (map c_sign (house_cusps out)) \<subseteq> set SIGNS)"
proof -
  let ?h12 = "[15, 45, 75, 105, 135, 165, 195, 225, 255, 285, 315, 345] :: real list"
  let ?a = "[15, 285, 567 / 2, 0, 0, 0, 0, 0] :: real list"
  let ?E13 = "stub_env\<lparr>houses_ex := \<lambda>jd lat lon hsys. Inr (0 # ?h12, ?a)\<rparr>"
  have e: "stub_env\<lparr>houses_ex := \<lambda>jd lat lon hsys. Inr (?h12, ?a)\<rparr> = stub_env"
    by (simp add: stub_env_def)
  from stub_chart_succeeds [of ?h12, unfolded e] stub_cusps
  obtain out where o: "chart stub_env stub_request = Inr out" by auto
  have h: "houses_ex stub_env (in_julian_day_ut (input out)) (g_lat (in_geocoded (input out)))
             (g_lon (in_geocoded (input out))) HOUSE_SYSTEM = Inr (?h12, ?a)"
    by (simp add: stub_env_def)
  from stub_chart_succeeds [of "0 # ?h12"] stub_cusps
  obtain out' where o': "chart ?E13 stub_request = Inr out'" by auto
  have h': "houses_ex ?E13 (in_julian_day_ut (input out')) (g_lat (in_geocoded (input out')))
             (g_lon (in_geocoded (input out'))) HOUSE_SYSTEM = Inr (0 # ?h12, ?a)"
    by simp
  from chart_house_cusps [OF o h] chart_house_cusps [OF o' h'] o o'
  show ?thesis by auto
qed


subsection \<open>Planets\<close>

text \<open>
  C9. When \<open>chart\<close> succeeds, the keys of the planets mapping are the names of the 11
  tracked bodies, each once, and the retrograde flag of each body is true exactly when
  the longitude speed the ephemeris reported for it (the fourth component) is negative.
\<close>

theorem chart_planets:
  assumes "chart E req = Inr out"
  shows "map fst (planets out) =
           [''Sun'', ''Moon'', ''Mercury'', ''Venus'', ''Mars'', ''Jupiter'', ''Saturn'',
            ''Uranus'', ''Neptune'', ''Pluto'', ''Node(M)'']
     \<and> distinct (map fst (planets out))
     \<and> map snd PLANETS =
           [SUN, MOON, MERCURY, VENUS, MARS, JUPITER, SATURN, URANUS, NEPTUNE, PLUTO, MEAN_NODE]
     \<and> (\<forall>(name, b) \<in> set PLANETS. \<exists>p res.
           map_of (planets out) name = Some p
         \<and> calc_ut E (in_julian_day_ut (input out)) b FLAGS = Inr res
         \<and> 3 < length res
         \<and> retrograde p = (res ! 3 < 0))"
proof -
  from assms obtain lat lon utc_dt houses ascmc where
    l: "planets_loop E (julian_day_ut E utc_dt) lat lon houses ascmc PLANETS [] = Inr (planets out)"
    and jd: "in_julian_day_ut (input out) = julian_day_ut E utc_dt"
    by (rule chart_InrD)
  from planets_loop_entries [OF l] PLANETS_distinct
  have keys: "map fst (planets out) = map fst PLANETS"
    and ent: "\<forall>(n, b) \<in> set PLANETS. \<exists>p. (n, p) \<in> set (planets out)
        \<and> planet_entry E (julian_day_ut E utc_dt) lat lon houses ascmc b = Inr p"
    by simp_all
  from keys PLANETS_distinct have dist: "distinct (map fst (planets out))" by simp
  have "\<exists>p res. map_of (planets out) n = Some p
         \<and> calc_ut E (in_julian_day_ut (input out)) b FLAGS = Inr res
         \<and> 3 < length res \<and> retrograde p = (res ! 3 < 0)"
    if "(n, b) \<in> set PLANETS" for n b
  proof -
    from ent that obtain p where p: "(n, p) \<in> set (planets out)"
      and e: "planet_entry E (julian_day_ut E utc_dt) lat lon houses ascmc b = Inr p"
      by auto
    from dist p have "map_of (planets out) n = Some p" by simp
    with planet_entry_retrograde [OF e] jd show ?thesis by auto
  qed
  then have "\<forall>(name, b) \<in> set PLANETS. \<exists>p res.
           map_of (planets out) name = Some p
         \<and> calc_ut E (in_julian_day_ut (input out)) b FLAGS = Inr res
         \<and> 3 < length res
         \<and> retrograde p = (res ! 3 < 0)"
    by auto
  moreover have "map snd PLANETS =
           [SUN, MOON, MERCURY, VENUS, MARS, JUPITER, SATURN, URANUS, NEPTUNE, PLUTO, MEAN_NODE]"
    by (simp add: PLANETS_def NODE_BODY_def)
  ultimately show ?thesis using keys dist by (simp add: PLANETS_names)
qed

theorem chart_planets_witness:
  "\<exists>out. chart stub_env stub_request = Inr out
     \<and> map fst (planets out) =
           [''Sun'', ''Moon'', ''Mercury'', ''Venus'', ''Mars'', ''Jupiter'', ''Saturn'',
            ''Uranus'', ''Neptune'', ''Pluto'', ''Node(M)'']
     \<and> distinct (map fst (planets out))
     \<and> (\<exists>p. map_of (planets out) ''Mercury'' = Some p \<and> retrograde p)
     \<and> (\<exists>p. map_of (planets out) ''Sun'' = Some p \<and> \<not> retrograde p)"
proof -
  let ?h12 = "[15, 45, 75, 105, 135, 165, 195, 225, 255, 285, 315, 345] :: real list"
  let ?a = "[15, 285, 567 / 2, 0, 0, 0, 0, 0] :: real list"
  have e: "stub_env\<lparr>houses_ex := \<lambda>jd lat lon hsys. Inr (?h12, ?a)\<rparr> = stub_env"
    by (simp add: stub_env_def)
  from stub_chart_succeeds [of ?h12, unfolded e] stub_cusps
  obtain out where o: "chart stub_env stub_request = Inr out" by auto
  note t = chart_planets [OF o]
  from t have all: "\<forall>(name, b) \<in> set PLANETS. \<exists>p res.
           map_of (planets out) name = Some p
         \<and> calc_ut stub_env (in_julian_day_ut (input out)) b FLAGS = Inr res
         \<and> 3 < length res \<and> retrograde p = (res ! 3 < 0)"
    by blast
  have "(''Mercury'', MERCURY) \<in> set PLANETS" "(''Sun'', SUN) \<in> set PLANETS"
    by (simp_all add: PLANETS_def)
  with all have m: "\<exists>p. map_of (planets out) ''Mercury'' = Some p \<and> retrograde p"
    and s: "\<exists>p. map_of (planets out) ''Sun'' = Some p \<and> \<not> retrograde p"
    by (fastforce simp add: stub_env_def)+
  from t have k: "map fst (planets out) =
           [''Sun'', ''Moon'', ''Mercury'', ''Venus'', ''Mars'', ''Jupiter'', ''Saturn'',
            ''Uranus'', ''Neptune'', ''Pluto'', ''Node(M)'']"
    and d: "distinct (map fst (planets out))"
    by (rule conjunct1, rule conjunct2 [THEN conjunct1])
  show ?thesis
    by (rule exI [of _ out]) (intro conjI o k d m s)
qed

end
